theory Spec2Isabelle
  imports Main
begin

section \<open>Python strings\<close>

text \<open>
  The program is \<^verbatim>\<open>class_data_understanding.py\<close>. A Python \<^verbatim>\<open>str\<close> is modelled as a
  \<^typ>\<open>string\<close>, one \<^typ>\<open>char\<close> for each code point, so that \<^const>\<open>length\<close> is
  Python's \<^verbatim>\<open>len\<close>; the model covers the code points below 256.
\<close>

text \<open>The character class of \<^verbatim>\<open>r'[/<>:"|?*]'\<close>; \<open>CHR 0x22\<close> is the double quote.\<close>

definition forbidden_chars :: string where
  "forbidden_chars =
     [CHR ''/'', CHR ''<'', CHR ''>'', CHR '':'', CHR 0x22, CHR ''|'', CHR ''?'', CHR ''*'']"

text \<open>\<^verbatim>\<open>re.sub('[cls]', r, s)\<close>: every character of the class is replaced by \<open>r\<close>.\<close>

definition re_sub_class :: "string \<Rightarrow> char \<Rightarrow> string \<Rightarrow> string" where
  "re_sub_class cls r s = map (\<lambda>c. if c \<in> set cls then r else c) s"

text \<open>
  \<^verbatim>\<open>re.sub('u+', 'u', s)\<close>: scanning from the left, every maximal run of \<open>u\<close> is
  matched (the quantifier is greedy) and replaced by one \<open>u\<close>.
\<close>

function re_sub_plus :: "char \<Rightarrow> string \<Rightarrow> string" where
  "re_sub_plus u [] = []"
| "re_sub_plus u (c # cs) =
     (if c = u then u # re_sub_plus u (dropWhile (\<lambda>d. d = u) cs)
      else c # re_sub_plus u cs)"
  by pat_completeness auto
termination
  by (relation "measure (\<lambda>(u, s). length s)") (auto simp: le_imp_less_Suc length_dropWhile_le)

text \<open>\<^verbatim>\<open>s.strip(chars)\<close>: leading and trailing characters of \<open>chars\<close> are removed.\<close>

definition py_strip_chars :: "string \<Rightarrow> string \<Rightarrow> string" where
  "py_strip_chars chars s =
     rev (dropWhile (\<lambda>c. c \<in> set chars) (rev (dropWhile (\<lambda>c. c \<in> set chars) s)))"

text \<open>
  \<^verbatim>\<open>
  def clean_filename(filename):
      clean = re.sub(r'[/<>:"|?*]', '_', filename)
      if len(clean) > 100:
          clean = clean[:97] + "..."
      clean = re.sub(r'_+', '_', clean)
      return clean.strip('_')
  \<close>
\<close>

definition clean_filename :: "string \<Rightarrow> string" where
  "clean_filename filename =
     (let clean = re_sub_class forbidden_chars CHR ''_'' filename;
          clean = (if length clean > 100 then take 97 clean @ ''...'' else clean);
          clean = re_sub_plus CHR ''_'' clean
      in py_strip_chars ''_'' clean)"

subsection \<open>The sanitizer as the specification words it\<close>

text \<open>
  The four steps of the specification, each defined on its own terms: replacing the
  forbidden characters, collapsing runs of underscores, trimming underscores at both
  ends, and shortening a result of more than 100 characters to 97 characters and an
  ellipsis.
\<close>

definition spec_replace :: "string \<Rightarrow> string" where
  "spec_replace s =
     map (\<lambda>c. if c = CHR ''/'' \<or> c = CHR ''<'' \<or> c = CHR ''>'' \<or> c = CHR '':'' \<or> c = CHR 0x22
               \<or> c = CHR ''|'' \<or> c = CHR ''?'' \<or> c = CHR ''*'' then CHR ''_'' else c) s"

fun spec_collapse :: "string \<Rightarrow> string" where
  "spec_collapse (a # b # cs) =
     (if a = CHR ''_'' \<and> b = CHR ''_'' then spec_collapse (b # cs)
      else a # spec_collapse (b # cs))"
| "spec_collapse cs = cs"

fun spec_trim_right :: "string \<Rightarrow> string" where
  "spec_trim_right [] = []"
| "spec_trim_right (c # cs) =
     (let r = spec_trim_right cs in if r = [] \<and> c = CHR ''_'' then [] else c # r)"

fun spec_trim_left :: "string \<Rightarrow> string" where
  "spec_trim_left [] = []"
| "spec_trim_left (c # cs) = (if c = CHR ''_'' then spec_trim_left cs else c # cs)"

definition spec_trim :: "string \<Rightarrow> string" where
  "spec_trim s = spec_trim_right (spec_trim_left s)"

definition spec_truncate :: "string \<Rightarrow> string" where
  "spec_truncate s = (if 100 < length s then take 97 s @ ''...'' else s)"

text \<open>The order of the specification: replace, collapse, trim, then truncate.\<close>

definition spec_clean_filename :: "string \<Rightarrow> string" where
  "spec_clean_filename s = spec_truncate (spec_trim (spec_collapse (spec_replace s)))"

text \<open>The same steps in the order of the source: replace, truncate, collapse, then trim.\<close>

definition amended_clean_filename :: "string \<Rightarrow> string" where
  "amended_clean_filename s = spec_trim (spec_collapse (spec_truncate (spec_replace s)))"

text \<open>A run of two or more consecutive underscores.\<close>

fun has_underscore_run :: "string \<Rightarrow> bool" where
  "has_underscore_run (a # b # cs) = ((a = CHR ''_'' \<and> b = CHR ''_'') \<or> has_underscore_run (b # cs))"
| "has_underscore_run cs = False"

subsection \<open>Column names\<close>

text \<open>
  The characters Python's \<^verbatim>\<open>str.strip()\<close> takes for whitespace, among the code points
  below 256: tab to carriage return, the four separators \<open>0x1C\<close> to \<open>0x1F\<close>, the
  space, \<open>0x85\<close> and the no-break space.
\<close>

definition py_isspace :: "char \<Rightarrow> bool" where
  "py_isspace c \<longleftrightarrow>
     c \<in> set [CHR 0x09, CHR 0x0A, CHR 0x0B, CHR 0x0C, CHR 0x0D, CHR 0x1C, CHR 0x1D, CHR 0x1E,
              CHR 0x1F, CHR 0x20, CHR 0x85, CHR 0xA0]"

definition py_strip :: "string \<Rightarrow> string" where
  "py_strip s = rev (dropWhile py_isspace (rev (dropWhile py_isspace s)))"

text \<open>\<^verbatim>\<open>s.replace(old, new)\<close> for one-character \<open>old\<close> and \<open>new\<close>.\<close>

definition py_replace_char :: "char \<Rightarrow> char \<Rightarrow> string \<Rightarrow> string" where
  "py_replace_char old new s = map (\<lambda>c. if c = old then new else c) s"

text \<open>
  A column label of a loaded table is a string or some other Python object (a number,
  a timestamp); \<^verbatim>\<open>str(c)\<close> is the identity on a string and is a parameter
  \<open>str_other\<close> on the rest.
\<close>

datatype 'l label = LStr string | LOther 'l

fun py_str :: "('l \<Rightarrow> string) \<Rightarrow> 'l label \<Rightarrow> string" where
  "py_str str_other (LStr s) = s"
| "py_str str_other (LOther x) = str_other x"

text \<open>\<^verbatim>\<open>str(c).strip().replace(" ", "_")\<close>, the element of the comprehension of line 78.\<close>

definition normalize_name :: "('l \<Rightarrow> string) \<Rightarrow> 'l label \<Rightarrow> string" where
  "normalize_name str_other c = py_replace_char CHR '' '' CHR ''_'' (py_strip (py_str str_other c))"

subsection \<open>The conversion \<^verbatim>\<open>int(s)\<close>\<close>

definition is_digit :: "char \<Rightarrow> bool" where
  "is_digit c \<longleftrightarrow> c \<in> set ''0123456789''"

definition digit_value :: "char \<Rightarrow> int" where
  "digit_value c = int (of_char c) - 48"

definition decimal_value :: "string \<Rightarrow> int" where
  "decimal_value ds = foldl (\<lambda>a c. 10 * a + digit_value c) 0 ds"

text \<open>
  The whitespace that \<^verbatim>\<open>int\<close> skips, among the code points below 256: tab to
  carriage return, the space, \<open>0x85\<close> and the no-break space, and not the separators
  \<open>0x1C\<close> to \<open>0x1F\<close> that \<^verbatim>\<open>str.strip()\<close> removes.
\<close>

definition py_int_isspace :: "char \<Rightarrow> bool" where
  "py_int_isspace c \<longleftrightarrow>
     c \<in> set [CHR 0x09, CHR 0x0A, CHR 0x0B, CHR 0x0C, CHR 0x0D, CHR 0x20, CHR 0x85, CHR 0xA0]"

text \<open>
  \<^verbatim>\<open>int(s)\<close> in base 10 on a string: whitespace at both ends is skipped, one sign is
  allowed, the digits may be grouped by single underscores between them, and anything
  else raises \<^verbatim>\<open>ValueError\<close>, here \<^const>\<open>None\<close>. The interpreter also refuses a
  numeral of more than \<open>lim\<close> digits when \<open>lim\<close> is positive (the setting
  \<^verbatim>\<open>sys.set_int_max_str_digits\<close> of CPython 3.11 and later, 4300 by default and never
  applied to 640 digits or fewer); \<open>lim = 0\<close> is an interpreter without the limit.
\<close>

definition py_int :: "nat \<Rightarrow> string \<Rightarrow> int option" where
  "py_int lim s =
     (let t = dropWhile py_int_isspace s;
          (neg, u) = (case t of
                        [] \<Rightarrow> (False, [])
                      | c # r \<Rightarrow> if c = CHR ''+'' then (False, r)
                                 else if c = CHR ''-'' then (True, r) else (False, t));
          body = takeWhile (\<lambda>c. is_digit c \<or> c = CHR ''_'') u;
          rest = dropWhile (\<lambda>c. is_digit c \<or> c = CHR ''_'') u;
          ds = filter is_digit body
      in if body = [] \<or> hd body = CHR ''_'' \<or> last body = CHR ''_'' \<or> has_underscore_run body
            \<or> \<not> list_all py_int_isspace rest
         then None
         else if 640 < length ds \<and> 0 < lim \<and> lim < length ds then None
         else Some ((if neg then - 1 else 1) * decimal_value ds))"

section \<open>Data model\<close>

text \<open>
  A table is its columns in order; a column has a label, a dtype, of which the program
  only asks whether it is numeric (\<^verbatim>\<open>np.number\<close>), and its cells.
\<close>

record ('n, 'c) column =
  col_name :: 'n
  is_numeric :: bool
  cells :: "'c list"

type_synonym ('n, 'c) table = "('n, 'c) column list"

text \<open>A sheet is selected by index or by name; a dictionary key is one of the two too.\<close>

datatype sheet_key = KInt int | KStr string

text \<open>
  What \<^verbatim>\<open>read_any\<close> returns: one table, or a \<^verbatim>\<open>dict\<close> of tables. The dictionary is
  an association list in insertion order.
\<close>

datatype ('l, 'c) loaded =
  Single "('l label, 'c) table"
| Multiple "(sheet_key \<times> ('l label, 'c) table) list"

text \<open>The namespace of \<^verbatim>\<open>parse_args\<close>; \<^verbatim>\<open>--sheet\<close> defaults to \<^verbatim>\<open>None\<close>.\<close>

record args =
  arg_input :: string
  arg_sep :: string
  arg_sheet :: "string option"
  arg_max_hist :: int
  arg_max_box :: int

text \<open>
  Exceptions: those that the statements of \<^verbatim>\<open>main\<close> raise themselves, and those that
  a collaborator or the file system raises, with a description. All of them derive
  from \<^verbatim>\<open>Exception\<close>.
\<close>

datatype exn = IndexError | KeyError | ValueError | Failure string

datatype level = INFO | WARNING | ERROR

text \<open>The messages of the logger calls of \<^verbatim>\<open>main\<close>, one constructor for each call.\<close>

datatype 'f msg =
  MReading string
| MFirstSheet sheet_key
| MSheetNotFound sheet_key "sheet_key list"
| MDimensions nat nat
| MFirstColumns "string list"
| MFlags 'f
| MPlotting
| MNotSaved string exn
| MDone

text \<open>What a writer puts at its target path.\<close>

datatype content =
  CTable "string list"
| CDictionary
| CDictionaryDebug
| CTruncated
| CFlags
| CFigure
| CNumericSummary "string list"
| CValueCounts string

text \<open>
  The effects of one run: the log, the directories ensured, and the writes that
  succeeded, each in the order of execution. A later write to a path replaces the
  file an earlier one left there.
\<close>

record 'f world =
  logs :: "(level \<times> 'f msg) list"
  dirs :: "string list"
  writes :: "(string \<times> content) list"

definition empty_world :: "'f world" where
  "empty_world = \<lparr>logs = [], dirs = [], writes = []\<rparr>"

definition file_content :: "(string \<times> content) list \<Rightarrow> string \<Rightarrow> content option" where
  "file_content ws p = map_of (rev ws) p"

text \<open>
  Modelled from the spec: the result of \<^verbatim>\<open>data_overview\<close> (module \<^verbatim>\<open>src.eda.eda\<close>),
  of which \<^verbatim>\<open>main\<close> reads the entries \<^verbatim>\<open>rows\<close>, \<^verbatim>\<open>cols\<close> and \<^verbatim>\<open>columns\<close>.
\<close>

record overview =
  ov_rows :: nat
  ov_cols :: nat
  ov_columns :: "string list"

text \<open>
  The collaborators of \<^verbatim>\<open>main\<close> are parameters: the loader, the functions of
  \<^verbatim>\<open>src.eda.eda\<close>, the file system and the interpreter's setting for \<^verbatim>\<open>int\<close>. Each
  may raise; a procedure returns \<^const>\<open>None\<close> when it succeeds. \<open>'d\<close> is the type of
  the data dictionary and \<open>'f\<close> that of the quality flags.
\<close>

record ('l, 'c, 'd, 'f) env =
  int_max_str_digits :: nat
  str_other :: "'l \<Rightarrow> string"
  ensure_dir :: "string \<Rightarrow> exn option"
  read_any :: "string \<Rightarrow> string \<Rightarrow> sheet_key option \<Rightarrow> exn + ('l, 'c) loaded"
  write_file :: "string \<Rightarrow> exn option"
  data_overview :: "(string, 'c) table \<Rightarrow> exn + overview"
  data_dictionary :: "(string, 'c) table \<Rightarrow> exn + 'd"
  save_dictionary_csv :: "'d \<Rightarrow> string \<Rightarrow> exn option"
  quality_flags :: "(string, 'c) table \<Rightarrow> 'd \<Rightarrow> exn + 'f"
  json_dump :: "'f \<Rightarrow> exn option"
  plot_missing_bar :: "(string, 'c) table \<Rightarrow> string \<Rightarrow> exn option"
  plot_histograms :: "(string, 'c) table \<Rightarrow> string \<Rightarrow> int \<Rightarrow> exn option"
  plot_boxplots :: "(string, 'c) table \<Rightarrow> string \<Rightarrow> int \<Rightarrow> exn option"
  plot_correlation :: "(string, 'c) table \<Rightarrow> string \<Rightarrow> exn option"

section \<open>Statements with effects\<close>

text \<open>
  A statement maps the world to its result, an exception on the left, and the new
  world. An exception keeps the effects made before it.
\<close>

type_synonym ('f, 'a) run = "'f world \<Rightarrow> (exn + 'a) \<times> 'f world"

definition result :: "'a \<Rightarrow> ('f, 'a) run" where
  "result x = (\<lambda>w. (Inr x, w))"

definition raise_exn :: "exn \<Rightarrow> ('f, 'a) run" where
  "raise_exn e = (\<lambda>w. (Inl e, w))"

definition next_do :: "('f, 'a) run \<Rightarrow> ('a \<Rightarrow> ('f, 'b) run) \<Rightarrow> ('f, 'b) run" where
  "next_do m k = (\<lambda>w. case m w of (Inl e, w') \<Rightarrow> (Inl e, w') | (Inr x, w') \<Rightarrow> k x w')"

text \<open>\<^verbatim>\<open>try: m  except Exception as e: h(e)\<close>\<close>

definition try_except :: "('f, 'a) run \<Rightarrow> (exn \<Rightarrow> ('f, 'a) run) \<Rightarrow> ('f, 'a) run" where
  "try_except m h = (\<lambda>w. case m w of (Inl e, w') \<Rightarrow> h e w' | (Inr x, w') \<Rightarrow> (Inr x, w'))"

definition returning :: "exn + 'a \<Rightarrow> ('f, 'a) run" where
  "returning r = (\<lambda>w. (r, w))"

definition check :: "exn option \<Rightarrow> ('f, unit) run" where
  "check r = (case r of None \<Rightarrow> result () | Some e \<Rightarrow> raise_exn e)"

definition log_msg :: "level \<Rightarrow> 'f msg \<Rightarrow> ('f, unit) run" where
  "log_msg lvl m = (\<lambda>w. (Inr (), w\<lparr>logs := logs w @ [(lvl, m)]\<rparr>))"

definition wrote :: "string \<Rightarrow> content \<Rightarrow> ('f, unit) run" where
  "wrote p c = (\<lambda>w. (Inr (), w\<lparr>writes := writes w @ [(p, c)]\<rparr>))"

text \<open>\<^verbatim>\<open>ensure_dir(p)\<close>\<close>

definition make_dir :: "('l, 'c, 'd, 'f) env \<Rightarrow> string \<Rightarrow> ('f, unit) run" where
  "make_dir env p =
     next_do (check (ensure_dir env p)) (\<lambda>_. (\<lambda>w. (Inr (), w\<lparr>dirs := dirs w @ [p]\<rparr>)))"

text \<open>A \<^verbatim>\<open>to_csv(p)\<close> of pandas: the file system accepts the write or raises.\<close>

definition to_csv :: "('l, 'c, 'd, 'f) env \<Rightarrow> string \<Rightarrow> content \<Rightarrow> ('f, unit) run" where
  "to_csv env p c = next_do (check (write_file env p)) (\<lambda>_. wrote p c)"

text \<open>\<^verbatim>\<open>open(p, "w")\<close>: the file is created, or emptied, before anything is written.\<close>

definition open_w :: "('l, 'c, 'd, 'f) env \<Rightarrow> string \<Rightarrow> ('f, unit) run" where
  "open_w env p = next_do (check (write_file env p)) (\<lambda>_. wrote p CTruncated)"

section \<open>The pipeline of \<^verbatim>\<open>main\<close>\<close>

text \<open>
  Lines 51 to 56:
  \<^verbatim>\<open>
  sheet = None
  if args.sheet is not None:
      try: sheet = int(args.sheet)
      except ValueError: sheet = args.sheet
  \<close>
\<close>

definition parse_sheet :: "nat \<Rightarrow> string option \<Rightarrow> sheet_key option" where
  "parse_sheet lim a =
     (case a of
        None \<Rightarrow> None
      | Some s \<Rightarrow> (case py_int lim s of Some n \<Rightarrow> Some (KInt n) | None \<Rightarrow> Some (KStr s)))"

text \<open>\<^verbatim>\<open>d[k]\<close> on a dictionary.\<close>

definition dict_get :: "('k \<times> 'v) list \<Rightarrow> 'k \<Rightarrow> exn + 'v" where
  "dict_get d k = (case map_of d k of None \<Rightarrow> Inl KeyError | Some v \<Rightarrow> Inr v)"

text \<open>
  Lines 62 to 74. The result \<^const>\<open>None\<close> is the \<^verbatim>\<open>return\<close> of line 74, which ends
  \<^verbatim>\<open>main\<close>; \<^verbatim>\<open>list(df.keys())[0]\<close> raises \<^verbatim>\<open>IndexError\<close> on an empty dictionary.
\<close>

definition resolve_sheet ::
  "('l, 'c) loaded \<Rightarrow> sheet_key option \<Rightarrow> ('f, ('l label, 'c) table option) run" where
  "resolve_sheet df sheet =
     (case df of
        Single t \<Rightarrow> result (Some t)
      | Multiple d \<Rightarrow>
          (case sheet of
             None \<Rightarrow>
               (case map fst d of
                  [] \<Rightarrow> raise_exn IndexError
                | first_sheet # _ \<Rightarrow>
                    next_do (log_msg WARNING (MFirstSheet first_sheet)) (\<lambda>_.
                    next_do (returning (dict_get d first_sheet)) (\<lambda>t. result (Some t))))
           | Some k \<Rightarrow>
               if k \<in> set (map fst d)
               then next_do (returning (dict_get d k)) (\<lambda>t. result (Some t))
               else next_do (log_msg ERROR (MSheetNotFound k (map fst d))) (\<lambda>_. result None)))"

text \<open>Lines 45 to 74: the directories, the selector, the loader, the sheet.\<close>

definition load :: "('l, 'c, 'd, 'f) env \<Rightarrow> args \<Rightarrow> ('f, ('l label, 'c) table option) run" where
  "load env a =
     next_do (make_dir env ''reports'') (\<lambda>_.
     next_do (make_dir env ''reports/figures'') (\<lambda>_.
     next_do (make_dir env ''data/interim'') (\<lambda>_.
     let sheet = parse_sheet (int_max_str_digits env) (arg_sheet a) in
     next_do (log_msg INFO (MReading (arg_input a))) (\<lambda>_.
     next_do (returning (read_any env (arg_input a) (arg_sep a) sheet)) (\<lambda>df.
     resolve_sheet df sheet)))))"

text \<open>
  Lines 77 and 78: \<^verbatim>\<open>df_cols_norm = df.copy()\<close>, then its \<^verbatim>\<open>columns\<close> are set to the
  normalized labels of \<^verbatim>\<open>df\<close>, position by position.
\<close>

definition normalize_columns ::
  "('l \<Rightarrow> string) \<Rightarrow> ('l label, 'c) table \<Rightarrow> (string, 'c) table" where
  "normalize_columns str_o df =
     map (\<lambda>col. \<lparr>col_name = normalize_name str_o (col_name col),
                 is_numeric = is_numeric col, cells = cells col\<rparr>) df"

text \<open>
  The same two lines on a store of objects, where \<^verbatim>\<open>df\<close> is a reference: the copy is
  a new object, and the assignment to \<^verbatim>\<open>columns\<close> changes the object it is made on.
  pandas refuses a list of labels of another length than the number of columns.
\<close>

type_synonym ('n, 'c) store = "('n, 'c) table list"

definition df_copy :: "('n, 'c) store \<Rightarrow> nat \<Rightarrow> (('n, 'c) store \<times> nat) option" where
  "df_copy h r = (if r < length h then Some (h @ [h ! r], length h) else None)"

definition set_columns :: "('n, 'c) store \<Rightarrow> nat \<Rightarrow> 'n list \<Rightarrow> ('n, 'c) store option" where
  "set_columns h r names =
     (if r < length h \<and> length names = length (h ! r)
      then Some (h[r := map (\<lambda>(n, col). col\<lparr>col_name := n\<rparr>) (zip names (h ! r))])
      else None)"

definition normalize_in_store ::
  "('l \<Rightarrow> string) \<Rightarrow> ('l label, 'c) store \<Rightarrow> nat \<Rightarrow> (('l label, 'c) store \<times> nat) option" where
  "normalize_in_store str_o h df =
     (case df_copy h df of
        None \<Rightarrow> None
      | Some (h1, df_cols_norm) \<Rightarrow>
          (case set_columns h1 df_cols_norm
                  (map (\<lambda>c. LStr (normalize_name str_o c)) (map col_name (h1 ! df)))
           of None \<Rightarrow> None
            | Some h2 \<Rightarrow> Some (h2, df_cols_norm)))"

text \<open>
  Lines 79 to 102: the interim copy, the overview, the dictionary, the flags, the plots.
  A collaborator that is given a target and succeeds has written to it; what
  \<^verbatim>\<open>plot_histograms\<close> and \<^verbatim>\<open>plot_boxplots\<close> put into their directory is not known here.
\<close>

definition profile ::
  "('l, 'c, 'd, 'f) env \<Rightarrow> args \<Rightarrow> (string, 'c) table \<Rightarrow> ('f, unit) run" where
  "profile env a df_cols_norm =
     next_do (to_csv env ''data/interim/sample_head.csv'' (CTable (map col_name df_cols_norm))) (\<lambda>_.
     next_do (returning (data_overview env df_cols_norm)) (\<lambda>ov.
     next_do (log_msg INFO (MDimensions (ov_rows ov) (ov_cols ov))) (\<lambda>_.
     next_do (log_msg INFO (MFirstColumns (take 5 (ov_columns ov)))) (\<lambda>_.
     next_do (returning (data_dictionary env df_cols_norm)) (\<lambda>dd.
     next_do (check (save_dictionary_csv env dd ''reports/data_dictionary.csv'')) (\<lambda>_.
     next_do (wrote ''reports/data_dictionary.csv'' CDictionary) (\<lambda>_.
     next_do (to_csv env ''data/interim/_data_dictionary_debug.csv'' CDictionaryDebug) (\<lambda>_.
     next_do (returning (quality_flags env df_cols_norm dd)) (\<lambda>flags.
     next_do (open_w env ''reports/quality_flags.json'') (\<lambda>_.
     next_do (check (json_dump env flags)) (\<lambda>_.
     next_do (wrote ''reports/quality_flags.json'' CFlags) (\<lambda>_.
     next_do (log_msg INFO (MFlags flags)) (\<lambda>_.
     next_do (log_msg INFO MPlotting) (\<lambda>_.
     next_do (check (plot_missing_bar env df_cols_norm ''reports/figures/missing_bar.png'')) (\<lambda>_.
     next_do (wrote ''reports/figures/missing_bar.png'' CFigure) (\<lambda>_.
     next_do (check (plot_histograms env df_cols_norm ''reports/figures'' (arg_max_hist a))) (\<lambda>_.
     next_do (wrote ''reports/figures'' CFigure) (\<lambda>_.
     next_do (check (plot_boxplots env df_cols_norm ''reports/figures'' (arg_max_box a))) (\<lambda>_.
     next_do (wrote ''reports/figures'' CFigure) (\<lambda>_.
     next_do (check (plot_correlation env df_cols_norm ''reports/figures/corr_matrix.png'')) (\<lambda>_.
     wrote ''reports/figures/corr_matrix.png'' CFigure)))))))))))))))))))))"

text \<open>\<^verbatim>\<open>df.select_dtypes(include=[np.number])\<close> and \<^verbatim>\<open>exclude=[np.number]\<close>.\<close>

definition select_dtypes :: "bool \<Rightarrow> ('n, 'c) table \<Rightarrow> ('n, 'c) table" where
  "select_dtypes number df = filter (\<lambda>col. is_numeric col = number) df"

definition numeric_summary_path :: string where
  "numeric_summary_path = ''reports/numeric_summary.csv''"

definition value_counts_path :: "string \<Rightarrow> string" where
  "value_counts_path c = ''reports/'' @ clean_filename c @ ''_top20_value_counts.csv''"

text \<open>
  Line 114, \<^verbatim>\<open>vc = cat[c].value_counts(dropna=False).head(20)\<close>. \<^verbatim>\<open>cat[c]\<close> is the
  column labelled \<open>c\<close> when one column has that label, and its value counts are
  taken: the cells of a loaded table are scalars. When several columns have the label,
  \<^verbatim>\<open>cat[c]\<close> is a table of them all, and \<^verbatim>\<open>value_counts\<close> raises on it, a
  \<^verbatim>\<open>ValueError\<close> in pandas 1.3 and later. A label of no column is a \<^verbatim>\<open>KeyError\<close>.
\<close>

definition value_counts :: "(string, 'c) table \<Rightarrow> string \<Rightarrow> ('f, unit) run" where
  "value_counts cat c =
     (case filter (\<lambda>col. col_name col = c) cat of
        [] \<Rightarrow> raise_exn KeyError
      | [col] \<Rightarrow> result ()
      | _ \<Rightarrow> raise_exn ValueError)"

text \<open>
  Lines 113 to 121, the loop over \<^verbatim>\<open>cat.columns\<close>; the result is \<^verbatim>\<open>freq_out\<close>. Line
  114 is outside the \<^verbatim>\<open>try\<close>: what it raises ends the loop and \<^verbatim>\<open>main\<close>.
  \<^verbatim>\<open>
  for c in cat.columns:
      vc = cat[c].value_counts(dropna=False).head(20)
      clean_col_name = clean_filename(c)
      try:
          vc.to_csv(f"reports/{clean_col_name}_top20_value_counts.csv")
          freq_out.append(c)
      except Exception as e:
          logger.warning(f"No se pudo guardar archivo para columna '{c}': {e}")
  \<close>
\<close>

fun export_value_counts ::
  "('l, 'c, 'd, 'f) env \<Rightarrow> (string, 'c) table \<Rightarrow> string list \<Rightarrow> string list
   \<Rightarrow> ('f, string list) run" where
  "export_value_counts env cat [] freq_out = result freq_out"
| "export_value_counts env cat (c # cs) freq_out =
     next_do (value_counts cat c) (\<lambda>vc.
     next_do
       (try_except
          (next_do (to_csv env (value_counts_path c) (CValueCounts c)) (\<lambda>_. result (freq_out @ [c])))
          (\<lambda>e. next_do (log_msg WARNING (MNotSaved c e)) (\<lambda>_. result freq_out)))
       (\<lambda>freq_out. export_value_counts env cat cs freq_out))"

text \<open>
  Lines 104 to 123: the numeric summary, the value counts, the last message.
  \<^verbatim>\<open>select_dtypes\<close> and \<^verbatim>\<open>describe\<close> are taken to succeed on a loaded table.
\<close>

definition export_tables :: "('l, 'c, 'd, 'f) env \<Rightarrow> (string, 'c) table \<Rightarrow> ('f, unit) run" where
  "export_tables env df_cols_norm =
     (let num = select_dtypes True df_cols_norm in
      next_do (if length num > 0
               then to_csv env numeric_summary_path (CNumericSummary (map col_name num))
               else result ()) (\<lambda>_.
      let cat = select_dtypes False df_cols_norm in
      next_do (export_value_counts env cat (map col_name cat) []) (\<lambda>freq_out.
      log_msg INFO MDone)))"

text \<open>Lines 76 to 123, for the table the sheet resolution has chosen.\<close>

definition process :: "('l, 'c, 'd, 'f) env \<Rightarrow> args \<Rightarrow> ('l label, 'c) table \<Rightarrow> ('f, unit) run" where
  "process env a df =
     (let df_cols_norm = normalize_columns (str_other env) df in
      next_do (profile env a df_cols_norm) (\<lambda>_. export_tables env df_cols_norm))"

text \<open>
  How the process ends: \<^verbatim>\<open>main\<close> returned, and the interpreter exits with status 0,
  or an exception left \<^verbatim>\<open>main\<close>, and the interpreter prints it and exits with status 1.
\<close>

datatype outcome = Returned | Raised exn

fun exit_status :: "outcome \<Rightarrow> nat" where
  "exit_status Returned = 0"
| "exit_status (Raised e) = 1"

definition finish :: "(exn + unit) \<times> 'f world \<Rightarrow> outcome \<times> 'f world" where
  "finish r = (case r of (Inl e, w) \<Rightarrow> (Raised e, w) | (Inr _, w) \<Rightarrow> (Returned, w))"

text \<open>\<^verbatim>\<open>main\<close>, run in a new process on the parsed arguments.\<close>

definition main :: "('l, 'c, 'd, 'f) env \<Rightarrow> args \<Rightarrow> outcome \<times> 'f world" where
  "main env a =
     finish (next_do (load env a)
               (\<lambda>sel. case sel of None \<Rightarrow> result () | Some df \<Rightarrow> process env a df)
             empty_world)"

section \<open>Notions for the statements\<close>

text \<open>The columns for which a warning of line 121 is in the log, in the order of the log.\<close>

fun not_saved :: "(level \<times> 'f msg) list \<Rightarrow> string list" where
  "not_saved [] = []"
| "not_saved ((lvl, MNotSaved c e) # l) = c # not_saved l"
| "not_saved (_ # l) = not_saved l"

text \<open>The writes of a run of \<^const>\<open>profile\<close> that reaches its end, in order.\<close>

definition profile_writes :: "(string, 'c) table \<Rightarrow> (string \<times> content) list" where
  "profile_writes df_cols_norm =
     [(''data/interim/sample_head.csv'', CTable (map col_name df_cols_norm)),
      (''reports/data_dictionary.csv'', CDictionary),
      (''data/interim/_data_dictionary_debug.csv'', CDictionaryDebug),
      (''reports/quality_flags.json'', CTruncated),
      (''reports/quality_flags.json'', CFlags),
      (''reports/figures/missing_bar.png'', CFigure),
      (''reports/figures'', CFigure),
      (''reports/figures'', CFigure),
      (''reports/figures/corr_matrix.png'', CFigure)]"

text \<open>The numeric summary of line 108, when there is a numeric column.\<close>

definition numeric_writes :: "(string, 'c) table \<Rightarrow> (string \<times> content) list" where
  "numeric_writes df_cols_norm =
     (if select_dtypes True df_cols_norm = [] then []
      else [(numeric_summary_path,
             CNumericSummary (map col_name (select_dtypes True df_cols_norm)))])"

text \<open>
  The labels that line 114 gets through: those before the first label that is the
  label of several columns of \<open>cat\<close>.
\<close>

definition one_column :: "(string, 'c) table \<Rightarrow> string \<Rightarrow> bool" where
  "one_column cat c \<longleftrightarrow> length (filter (\<lambda>col. col_name col = c) cat) = 1"

definition counted :: "(string, 'c) table \<Rightarrow> string list" where
  "counted cat = takeWhile (one_column cat) (map col_name cat)"

text \<open>The value counts the file system accepts, and the warnings for the others.\<close>

definition saved :: "('l, 'c, 'd, 'f) env \<Rightarrow> string list \<Rightarrow> string list" where
  "saved env cs = filter (\<lambda>c. write_file env (value_counts_path c) = None) cs"

definition value_counts_writes ::
  "('l, 'c, 'd, 'f) env \<Rightarrow> string list \<Rightarrow> (string \<times> content) list" where
  "value_counts_writes env cs = map (\<lambda>c. (value_counts_path c, CValueCounts c)) (saved env cs)"

definition value_counts_warnings ::
  "('l, 'c, 'd, 'f) env \<Rightarrow> string list \<Rightarrow> (level \<times> 'f msg) list" where
  "value_counts_warnings env cs =
     concat (map (\<lambda>c. case write_file env (value_counts_path c) of
                         None \<Rightarrow> []
                       | Some e \<Rightarrow> [(WARNING, MNotSaved c e)]) cs)"

text \<open>The world after the three calls of \<^verbatim>\<open>ensure_dir\<close> and the given log.\<close>

definition loaded_world :: "(level \<times> 'f msg) list \<Rightarrow> 'f world" where
  "loaded_world l =
     \<lparr>logs = l, dirs = [''reports'', ''reports/figures'', ''data/interim''], writes = []\<rparr>"

section \<open>Example runs\<close>

text \<open>
  An environment for concrete runs: the loader returns \<open>df\<close>, the file system refuses
  the paths of \<open>failing\<close>, every other collaborator succeeds, and \<^verbatim>\<open>int\<close> has the
  default limit of 4300 digits. Labels that are not strings are \<^verbatim>\<open>None\<close>, cells are
  integers, the dictionary and the flags carry nothing.
\<close>

definition example_overview :: "(string, 'c) table \<Rightarrow> overview" where
  "example_overview t =
     \<lparr>ov_rows = (case t of [] \<Rightarrow> 0 | col # _ \<Rightarrow> length (cells col)),
      ov_cols = length t, ov_columns = map col_name t\<rparr>"

definition example_env :: "(unit, int) loaded \<Rightarrow> string list \<Rightarrow> (unit, int, unit, unit) env" where
  "example_env df failing =
     \<lparr>int_max_str_digits = 4300,
      str_other = (\<lambda>_. ''None''),
      ensure_dir = (\<lambda>_. None),
      read_any = (\<lambda>_ _ _. Inr df),
      write_file = (\<lambda>p. if p \<in> set failing then Some (Failure ''disk full'') else None),
      data_overview = (\<lambda>t. Inr (example_overview t)),
      data_dictionary = (\<lambda>_. Inr ()),
      save_dictionary_csv = (\<lambda>_ _. None),
      quality_flags = (\<lambda>_ _. Inr ()),
      json_dump = (\<lambda>_. None),
      plot_missing_bar = (\<lambda>_ _. None),
      plot_histograms = (\<lambda>_ _ _. None),
      plot_boxplots = (\<lambda>_ _ _. None),
      plot_correlation = (\<lambda>_ _. None)\<rparr>"

definition example_args :: "string option \<Rightarrow> args" where
  "example_args sheet =
     \<lparr>arg_input = ''data.xlsx'', arg_sep = ''auto'', arg_sheet = sheet,
      arg_max_hist = 12, arg_max_box = 8\<rparr>"

definition sheet1 :: "(unit label, int) table" where
  "sheet1 = [\<lparr>col_name = LStr ''id'', is_numeric = True, cells = [1, 2]\<rparr>]"

definition sheet2 :: "(unit label, int) table" where
  "sheet2 = [\<lparr>col_name = LStr ''unit price'', is_numeric = True, cells = [5]\<rparr>]"

definition two_sheets :: "(unit, int) loaded" where
  "two_sheets = Multiple [(KStr ''Sheet1'', sheet1), (KStr ''Sheet2'', sheet2)]"

text \<open>A workbook with a sheet named \<^verbatim>\<open>2\<close> and no sheet of index 2.\<close>

definition digit_sheets :: "(unit, int) loaded" where
  "digit_sheets = Multiple [(KStr ''1'', sheet1), (KStr ''2'', sheet2)]"

text \<open>A digit string one digit longer than the default limit, and a sheet of that name.\<close>

definition long_digits :: string where
  "long_digits = replicate 4301 CHR ''1''"

definition long_named_sheets :: "(unit, int) loaded" where
  "long_named_sheets = Multiple [(KStr long_digits, sheet1), (KInt 0, sheet2)]"

text \<open>A table with two text columns whose names differ in one character, and a number.\<close>

definition colliding_table :: "(unit label, int) table" where
  "colliding_table =
     [\<lparr>col_name = LStr ''a/b'', is_numeric = False, cells = [1]\<rparr>,
      \<lparr>col_name = LStr ''a_b'', is_numeric = False, cells = [2]\<rparr>,
      \<lparr>col_name = LStr ''n'', is_numeric = True, cells = [3]\<rparr>]"

text \<open>A table whose second and third labels are one label once normalized.\<close>

definition repeating_table :: "(unit label, int) table" where
  "repeating_table =
     [\<lparr>col_name = LStr ''x'', is_numeric = False, cells = [1]\<rparr>,
      \<lparr>col_name = LStr ''a b'', is_numeric = False, cells = [2]\<rparr>,
      \<lparr>col_name = LStr ''a_b'', is_numeric = False, cells = [3]\<rparr>]"

definition text_table :: "(unit label, int) table" where
  "text_table =
     [\<lparr>col_name = LStr ''bad/name'', is_numeric = False, cells = [1]\<rparr>,
      \<lparr>col_name = LStr ''city'', is_numeric = False, cells = [2]\<rparr>]"

section \<open>The filename sanitizer\<close>

subsection \<open>The steps of the source are the steps of the specification\<close>

lemma re_sub_class_forbidden: "re_sub_class forbidden_chars CHR ''_'' s = spec_replace s"
  by (simp add: re_sub_class_def spec_replace_def forbidden_chars_def)

lemma spec_collapse_underscore:
  "spec_collapse (CHR ''_'' # cs) = CHR ''_'' # spec_collapse (dropWhile (\<lambda>d. d = CHR ''_'') cs)"
proof (induction cs)
  case Nil
  show ?case by simp
next
  case (Cons b cs)
  show ?case
  proof (cases "b = CHR ''_''")
    case True
    with Cons show ?thesis by simp
  next
    case False
    then show ?thesis by simp
  qed
qed

lemma spec_collapse_other: "c \<noteq> CHR ''_'' \<Longrightarrow> spec_collapse (c # cs) = c # spec_collapse cs"
  by (cases cs) simp_all

lemma re_sub_plus_collapse: "re_sub_plus CHR ''_'' s = spec_collapse s"
proof (induction "CHR ''_''" s rule: re_sub_plus.induct)
  case 1
  show ?case by simp
next
  case (2 c cs)
  show ?case
  proof (cases "c = CHR ''_''")
    case True
    with 2 show ?thesis by (simp add: spec_collapse_underscore)
  next
    case False
    with 2 show ?thesis by (simp add: spec_collapse_other)
  qed
qed

lemma spec_trim_left_dropWhile: "spec_trim_left s = dropWhile (\<lambda>c. c = CHR ''_'') s"
  by (induction s) simp_all

lemma spec_trim_right_rev:
  "spec_trim_right s = rev (dropWhile (\<lambda>c. c = CHR ''_'') (rev s))"
proof (induction s)
  case Nil
  show ?case by simp
next
  case (Cons c cs)
  show ?case
  proof (cases "\<forall>x\<in>set cs. x = CHR ''_''")
    case True
    then have "dropWhile (\<lambda>c. c = CHR ''_'') (rev cs) = []" by simp
    with Cons True show ?thesis by (simp add: dropWhile_append)
  next
    case False
    then have "dropWhile (\<lambda>c. c = CHR ''_'') (rev cs) \<noteq> []" by (simp add: dropWhile_eq_Nil_conv)
    with Cons False show ?thesis by (simp add: dropWhile_append Let_def)
  qed
qed

lemma py_strip_chars_underscore: "py_strip_chars ''_'' s = spec_trim s"
  by (simp add: py_strip_chars_def spec_trim_def spec_trim_left_dropWhile spec_trim_right_rev)

lemma clean_filename_steps:
  "clean_filename s = spec_trim (spec_collapse (spec_truncate (spec_replace s)))"
  by (simp add: clean_filename_def Let_def re_sub_class_forbidden re_sub_plus_collapse
      py_strip_chars_underscore spec_truncate_def)

text \<open>
  Claim C1, as the specification words it: the sanitized filename is computed by
  replacing the forbidden characters, then collapsing the runs of underscores, then
  trimming the underscores at both ends, and only then truncating a result of more than
  100 characters to 97 characters and the ellipsis. The source truncates before it
  collapses and trims: on 101 underscores it returns the ellipsis alone, where the
  order of the specification gives the empty string.
\<close>

theorem clean_filename_spec_order_counterexample:
  "clean_filename (replicate 101 CHR ''_'') = ''...''
   \<and> spec_clean_filename (replicate 101 CHR ''_'') = []
   \<and> clean_filename (replicate 101 CHR ''_'') \<noteq> spec_clean_filename (replicate 101 CHR ''_'')"
  by code_simp

text \<open>
  Claim C1, amended: for every input string, \<^verbatim>\<open>clean_filename\<close> replaces each
  forbidden character by an underscore; then, if that string has more than 100
  characters, truncates it to 97 characters and appends the ellipsis; then collapses
  every run of underscores to one underscore; then trims the underscores at both ends.
\<close>

theorem clean_filename_algorithm: "clean_filename s = amended_clean_filename s"
  by (simp add: clean_filename_steps amended_clean_filename_def)

subsection \<open>What every sanitized name satisfies\<close>

lemma has_underscore_run_iff:
  "has_underscore_run xs \<longleftrightarrow>
     (\<exists>i. Suc i < length xs \<and> xs ! i = CHR ''_'' \<and> xs ! Suc i = CHR ''_'')"
proof (induction xs rule: has_underscore_run.induct)
  case (1 a b cs)
  show ?case
  proof
    assume "has_underscore_run (a # b # cs)"
    then consider "a = CHR ''_'' \<and> b = CHR ''_''" | "has_underscore_run (b # cs)" by auto
    then show "\<exists>i. Suc i < length (a # b # cs) \<and> (a # b # cs) ! i = CHR ''_''
                 \<and> (a # b # cs) ! Suc i = CHR ''_''"
    proof cases
      case 1
      then have "Suc 0 < length (a # b # cs) \<and> (a # b # cs) ! 0 = CHR ''_''
                 \<and> (a # b # cs) ! Suc 0 = CHR ''_''" by simp
      then show ?thesis by blast
    next
      case 2
      with "1.IH" obtain i where "Suc i < length (b # cs)" "(b # cs) ! i = CHR ''_''"
        "(b # cs) ! Suc i = CHR ''_''" by blast
      then have "Suc (Suc i) < length (a # b # cs) \<and> (a # b # cs) ! Suc i = CHR ''_''
                 \<and> (a # b # cs) ! Suc (Suc i) = CHR ''_''" by simp
      then show ?thesis by blast
    qed
  next
    assume "\<exists>i. Suc i < length (a # b # cs) \<and> (a # b # cs) ! i = CHR ''_''
                 \<and> (a # b # cs) ! Suc i = CHR ''_''"
    then obtain i where i: "Suc i < length (a # b # cs)" "(a # b # cs) ! i = CHR ''_''"
      "(a # b # cs) ! Suc i = CHR ''_''" by blast
    show "has_underscore_run (a # b # cs)"
    proof (cases i)
      case 0
      with i show ?thesis by simp
    next
      case (Suc j)
      with i have "Suc j < length (b # cs) \<and> (b # cs) ! j = CHR ''_'' \<and> (b # cs) ! Suc j = CHR ''_''"
        by simp
      with "1.IH" have "has_underscore_run (b # cs)" by blast
      then show ?thesis by simp
    qed
  qed
qed simp_all

lemma spec_collapse_head: "\<exists>r. spec_collapse (b # cs) = b # r"
proof (induction cs arbitrary: b)
  case Nil
  show ?case by simp
next
  case (Cons c cs)
  from Cons [of c] obtain r where "spec_collapse (c # cs) = c # r" by blast
  then show ?case by auto
qed

lemma spec_collapse_no_run: "\<not> has_underscore_run (spec_collapse xs)"
proof (induction xs rule: spec_collapse.induct)
  case (1 a b cs)
  obtain r where r: "spec_collapse (b # cs) = b # r" using spec_collapse_head by blast
  show ?case
  proof (cases "a = CHR ''_'' \<and> b = CHR ''_''")
    case True
    with 1 show ?thesis by simp
  next
    case False
    with 1 r show ?thesis by auto
  qed
qed simp_all

lemma run_Cons: "has_underscore_run cs \<Longrightarrow> has_underscore_run (c # cs)"
  by (cases cs) simp_all

lemma spec_trim_left_run: "has_underscore_run (spec_trim_left xs) \<Longrightarrow> has_underscore_run xs"
  by (induction xs) (auto simp: run_Cons split: if_splits)

lemma spec_trim_right_head: "spec_trim_right (b # cs) = [] \<or> (\<exists>r. spec_trim_right (b # cs) = b # r)"
  by (simp add: Let_def)

lemma spec_trim_right_run: "has_underscore_run (spec_trim_right xs) \<Longrightarrow> has_underscore_run xs"
proof (induction xs rule: has_underscore_run.induct)
  case (1 a b cs)
  show ?case
  proof (cases "spec_trim_right (b # cs)")
    case Nil
    with "1.prems" show ?thesis by (simp add: Let_def split: if_splits)
  next
    case (Cons x r)
    with spec_trim_right_head [of b cs] have x: "x = b" by auto
    from "1.prems" Cons x have "(a = CHR ''_'' \<and> b = CHR ''_'') \<or> has_underscore_run (spec_trim_right (b # cs))"
      by (auto simp: Let_def split: if_splits)
    with "1.IH" show ?thesis by auto
  qed
qed (simp_all add: Let_def split: if_splits)

lemma spec_trim_no_run: "\<not> has_underscore_run xs \<Longrightarrow> \<not> has_underscore_run (spec_trim xs)"
  unfolding spec_trim_def using spec_trim_left_run spec_trim_right_run by blast

lemma set_spec_collapse: "set (spec_collapse xs) \<subseteq> set xs"
  by (induction xs rule: spec_collapse.induct) auto

lemma length_spec_collapse: "length (spec_collapse xs) \<le> length xs"
  by (induction xs rule: spec_collapse.induct) auto

lemma set_spec_trim: "set (spec_trim xs) \<subseteq> set xs"
proof -
  have "set (spec_trim xs) \<subseteq> set (dropWhile (\<lambda>c. c = CHR ''_'') xs)"
    unfolding spec_trim_def spec_trim_right_rev spec_trim_left_dropWhile
    using set_dropWhileD [of _ "\<lambda>c. c = CHR ''_''" "rev (dropWhile (\<lambda>c. c = CHR ''_'') xs)"]
    by auto
  also have "\<dots> \<subseteq> set xs" using set_dropWhileD by fastforce
  finally show ?thesis .
qed

lemma length_spec_trim: "length (spec_trim xs) \<le> length xs"
proof -
  have "length (spec_trim xs) \<le> length (dropWhile (\<lambda>c. c = CHR ''_'') xs)"
    unfolding spec_trim_def spec_trim_right_rev spec_trim_left_dropWhile
    using length_dropWhile_le [of "\<lambda>c. c = CHR ''_''" "rev (dropWhile (\<lambda>c. c = CHR ''_'') xs)"]
    by simp
  also have "\<dots> \<le> length xs" by (rule length_dropWhile_le)
  finally show ?thesis .
qed

lemma set_spec_replace: "set (spec_replace s) \<inter> set forbidden_chars = {}"
  by (auto simp: spec_replace_def forbidden_chars_def)

lemma set_spec_truncate: "set (spec_truncate xs) \<subseteq> set xs \<union> {CHR ''.''}"
  using set_take_subset [of 97 xs] by (auto simp: spec_truncate_def)

lemma length_spec_truncate: "length (spec_truncate xs) \<le> 100"
  by (simp add: spec_truncate_def)

lemma clean_filename_chars: "set (clean_filename s) \<inter> set forbidden_chars = {}"
proof -
  have "set (clean_filename s) \<subseteq> set (spec_replace s) \<union> {CHR ''.''}"
    unfolding clean_filename_steps
    using set_spec_trim set_spec_collapse set_spec_truncate by blast
  moreover have "CHR ''.'' \<notin> set forbidden_chars" by (simp add: forbidden_chars_def)
  ultimately show ?thesis using set_spec_replace [of s] by blast
qed

lemma clean_filename_length: "length (clean_filename s) \<le> 100"
proof -
  have "length (clean_filename s) \<le> length (spec_truncate (spec_replace s))"
    unfolding clean_filename_steps
    using length_spec_trim length_spec_collapse le_trans by blast
  then show ?thesis using length_spec_truncate le_trans by blast
qed

lemma clean_filename_no_run: "\<not> has_underscore_run (clean_filename s)"
  unfolding clean_filename_steps by (rule spec_trim_no_run) (rule spec_collapse_no_run)

text \<open>
  Claim C4: for every input string, the output of \<^verbatim>\<open>clean_filename\<close> contains none
  of the forbidden characters, has at most 100 characters, and has no two consecutive
  underscores.
\<close>

theorem clean_filename_output_safe:
  "set (clean_filename s) \<inter> set forbidden_chars = {}
   \<and> length (clean_filename s) \<le> 100
   \<and> \<not> (\<exists>i. Suc i < length (clean_filename s) \<and> clean_filename s ! i = CHR ''_''
            \<and> clean_filename s ! Suc i = CHR ''_'')"
  using clean_filename_chars clean_filename_length clean_filename_no_run [of s]
  by (simp add: has_underscore_run_iff)

section \<open>Column name normalization\<close>

subsection \<open>Stripping\<close>

lemma strip_ends:
  fixes P :: "'a \<Rightarrow> bool"
  assumes "t = rev (dropWhile P (rev (dropWhile P s)))" and "t \<noteq> []"
  shows "\<not> P (hd t) \<and> \<not> P (last t)"
proof -
  let ?d = "dropWhile P s"
  let ?e = "dropWhile P (rev ?d)"
  from assms have e: "?e \<noteq> []" by simp
  then have "\<not> P (hd ?e)" by (rule hd_dropWhile)
  moreover have "last t = hd ?e" using assms e by (simp add: last_rev)
  moreover have "\<not> P (hd t)"
  proof -
    have "rev ?d = takeWhile P (rev ?d) @ ?e" by simp
    then have "?d = rev ?e @ rev (takeWhile P (rev ?d))"
      by (metis rev_append rev_rev_ident)
    then have d: "?d = t @ rev (takeWhile P (rev ?d))" using assms by simp
    from d assms(2) have "?d \<noteq> []" by (metis append_is_Nil_conv)
    then have "\<not> P (hd ?d)" by (rule hd_dropWhile)
    moreover from d assms have "hd ?d = hd t" by (metis hd_append2)
    ultimately show ?thesis by simp
  qed
  ultimately show ?thesis by simp
qed

lemma strip_fixed:
  fixes P :: "'a \<Rightarrow> bool"
  assumes "t = [] \<or> (\<not> P (hd t) \<and> \<not> P (last t))"
  shows "rev (dropWhile P (rev (dropWhile P t))) = t"
proof (cases "t = []")
  case True
  then show ?thesis by simp
next
  case False
  with assms have h: "\<not> P (hd t)" and l: "\<not> P (last t)" by auto
  from False h have "dropWhile P t = t" by (cases t) simp_all
  moreover have "dropWhile P (rev t) = rev t"
  proof (cases "rev t")
    case Nil
    then show ?thesis by simp
  next
    case (Cons a as)
    with False have "a = last t" by (metis hd_rev list.sel(1))
    with l have "dropWhile P (a # as) = a # as" by simp
    then show ?thesis by (simp only: Cons)
  qed
  ultimately show ?thesis by simp
qed

lemma py_strip_ends: "py_strip s \<noteq> [] \<Longrightarrow> \<not> py_isspace (hd (py_strip s)) \<and> \<not> py_isspace (last (py_strip s))"
  using strip_ends [of "py_strip s" py_isspace s] by (simp add: py_strip_def)

lemma underscore_not_space: "\<not> py_isspace CHR ''_''"
  by (simp add: py_isspace_def)

lemma normalize_name_ends:
  "normalize_name str_o c = [] \<or>
   (\<not> py_isspace (hd (normalize_name str_o c)) \<and> \<not> py_isspace (last (normalize_name str_o c)))"
proof (cases "py_strip (py_str str_o c) = []")
  case True
  then show ?thesis by (simp add: normalize_name_def py_replace_char_def)
next
  case False
  with py_strip_ends show ?thesis
    by (auto simp: normalize_name_def py_replace_char_def hd_map last_map underscore_not_space)
qed

lemma normalize_name_no_space: "CHR '' '' \<notin> set (normalize_name str_o c)"
  by (auto simp: normalize_name_def py_replace_char_def)

lemma replace_absent: "old \<notin> set s \<Longrightarrow> py_replace_char old new s = s"
  by (induction s) (auto simp: py_replace_char_def)

text \<open>
  Claim C8: the normalization of a column name, \<^verbatim>\<open>str(c).strip().replace(" ", "_")\<close>,
  is idempotent: applied to a name that is already normalized, it returns that name.
\<close>

theorem normalize_name_idempotent:
  "normalize_name str_o (LStr (normalize_name str_o c)) = normalize_name str_o c"
proof -
  let ?n = "normalize_name str_o c"
  have "py_strip ?n = ?n"
    unfolding py_strip_def using normalize_name_ends by (rule strip_fixed)
  then have "normalize_name str_o (LStr ?n) = py_replace_char CHR '' '' CHR ''_'' ?n"
    by (simp add: normalize_name_def)
  also have "\<dots> = ?n" using normalize_name_no_space by (rule replace_absent)
  finally show ?thesis .
qed

subsection \<open>The normalized table\<close>

lemma rename_zip:
  "map (\<lambda>(n, col). col\<lparr>col_name := n\<rparr>) (zip (map g t) t)
   = map (\<lambda>col. col\<lparr>col_name := g col\<rparr>) t"
  by (induction t) simp_all

lemma normalize_in_store_result:
  assumes "df < length h"
  shows "normalize_in_store str_o h df =
           Some (h @ [map (\<lambda>col. col\<lparr>col_name := LStr (normalize_name str_o (col_name col))\<rparr>) (h ! df)],
                 length h)"
  using assms
  by (simp add: normalize_in_store_def df_copy_def set_columns_def nth_append rename_zip)

text \<open>
  Claim C6: name normalization produces a new table whose column names are the old
  names stringified, stripped and with their spaces replaced by underscores; the order
  of the columns, their dtypes and their cells are those of the input, and the input
  table, like every object that existed before, is unchanged.
\<close>

theorem normalization_renames_a_copy:
  assumes "df < length h"
  shows "case normalize_in_store str_o h df of
           None \<Rightarrow> False
         | Some (h', df_cols_norm) \<Rightarrow>
             df_cols_norm < length h' \<and> df_cols_norm \<noteq> df
             \<and> take (length h) h' = h
             \<and> h' ! df = h ! df
             \<and> map col_name (h' ! df_cols_norm)
                 = map (\<lambda>col. LStr (normalize_name str_o (col_name col))) (h ! df)
             \<and> map is_numeric (h' ! df_cols_norm) = map is_numeric (h ! df)
             \<and> map cells (h' ! df_cols_norm) = map cells (h ! df)
             \<and> map col_name (normalize_columns str_o (h ! df))
                 = map (\<lambda>col. normalize_name str_o (col_name col)) (h ! df)
             \<and> map is_numeric (normalize_columns str_o (h ! df)) = map is_numeric (h ! df)
             \<and> map cells (normalize_columns str_o (h ! df)) = map cells (h ! df)"
  using assms
  by (simp add: normalize_in_store_result nth_append normalize_columns_def comp_def)

theorem normalization_renames_a_copy_witness:
  "(0::nat) < length [[\<lparr>col_name = LStr '' unit price '', is_numeric = True, cells = [1::int, 2]\<rparr>]]
   \<and> (case normalize_in_store (\<lambda>n::nat. ''n'')
           [[\<lparr>col_name = LStr '' unit price '', is_numeric = True, cells = [1::int, 2]\<rparr>]] 0 of
         None \<Rightarrow> False
       | Some (h', df_cols_norm) \<Rightarrow>
           h' ! 0 = [\<lparr>col_name = LStr '' unit price '', is_numeric = True, cells = [1, 2]\<rparr>]
           \<and> map col_name (h' ! df_cols_norm) = [LStr ''unit_price'']
           \<and> map cells (h' ! df_cols_norm) = [[1, 2]])"
  using normalization_renames_a_copy
    [of 0 "[[\<lparr>col_name = LStr '' unit price '', is_numeric = True, cells = [1::int, 2]\<rparr>]]"
        "\<lambda>n::nat. ''n''"]
  by (simp add: normalize_name_def py_strip_def py_replace_char_def py_isspace_def
      split: option.splits prod.splits)

section \<open>The run of \<^verbatim>\<open>main\<close>\<close>

subsection \<open>Running statements\<close>

lemma next_do_run:
  "next_do m k w = (case m w of (Inl e, w') \<Rightarrow> (Inl e, w') | (Inr x, w') \<Rightarrow> k x w')"
  by (simp add: next_do_def)

lemma to_csv_run:
  "to_csv env p c w =
     (case write_file env p of
        None \<Rightarrow> (Inr (), w\<lparr>writes := writes w @ [(p, c)]\<rparr>)
      | Some e \<Rightarrow> (Inl e, w))"
  by (simp add: to_csv_def check_def next_do_def result_def raise_exn_def wrote_def
      split: option.splits)

lemma open_w_run:
  "open_w env p w =
     (case write_file env p of
        None \<Rightarrow> (Inr (), w\<lparr>writes := writes w @ [(p, CTruncated)]\<rparr>)
      | Some e \<Rightarrow> (Inl e, w))"
  by (simp add: open_w_def check_def next_do_def result_def raise_exn_def wrote_def
      split: option.splits)

lemma make_dir_run:
  "make_dir env p w =
     (case ensure_dir env p of
        None \<Rightarrow> (Inr (), w\<lparr>dirs := dirs w @ [p]\<rparr>)
      | Some e \<Rightarrow> (Inl e, w))"
  by (simp add: make_dir_def check_def next_do_def result_def raise_exn_def
      split: option.splits)

lemma check_run:
  "check r w = (case r of None \<Rightarrow> (Inr (), w) | Some e \<Rightarrow> (Inl e, w))"
  by (simp add: check_def result_def raise_exn_def split: option.splits)

lemma returning_run: "returning r w = (r, w)"
  by (simp add: returning_def)

lemma result_run: "result x w = (Inr x, w)"
  by (simp add: result_def)

lemma raise_run: "raise_exn e w = (Inl e, w)"
  by (simp add: raise_exn_def)

lemma log_run: "log_msg lvl m w = (Inr (), w\<lparr>logs := logs w @ [(lvl, m)]\<rparr>)"
  by (simp add: log_msg_def)

lemma wrote_run: "wrote p c w = (Inr (), w\<lparr>writes := writes w @ [(p, c)]\<rparr>)"
  by (simp add: wrote_def)

lemmas run_simps =
  next_do_run to_csv_run open_w_run make_dir_run check_run returning_run result_run raise_run log_run
  wrote_run

subsection \<open>Loading\<close>

lemma load_run:
  assumes "ensure_dir env ''reports'' = None" and "ensure_dir env ''reports/figures'' = None"
    and "ensure_dir env ''data/interim'' = None"
  shows "load env a empty_world =
           (case read_any env (arg_input a) (arg_sep a)
                   (parse_sheet (int_max_str_digits env) (arg_sheet a)) of
              Inl e \<Rightarrow> (Inl e, loaded_world [(INFO, MReading (arg_input a))])
            | Inr df \<Rightarrow>
                resolve_sheet df (parse_sheet (int_max_str_digits env) (arg_sheet a))
                  (loaded_world [(INFO, MReading (arg_input a))]))"
  using assms
  by (simp add: load_def run_simps Let_def empty_world_def loaded_world_def split: sum.splits)

lemma resolve_sheet_missing:
  assumes "k \<notin> set (map fst d)"
  shows "resolve_sheet (Multiple d) (Some k) (loaded_world l) =
           (Inr None, loaded_world (l @ [(ERROR, MSheetNotFound k (map fst d))]))"
  using assms by (simp add: resolve_sheet_def run_simps loaded_world_def)

lemma resolve_sheet_present:
  assumes "map_of d k = Some t"
  shows "resolve_sheet (Multiple d) (Some k) w = (Inr (Some t), w)"
proof -
  from assms have "k \<in> set (map fst d)" by (metis map_of_eq_None_iff option.distinct(1) set_map)
  with assms show ?thesis by (simp add: resolve_sheet_def run_simps dict_get_def)
qed

lemma resolve_sheet_first:
  "resolve_sheet (Multiple ((k, t) # rest)) None (loaded_world l) =
     (Inr (Some t), loaded_world (l @ [(WARNING, MFirstSheet k)]))"
  by (simp add: resolve_sheet_def run_simps dict_get_def loaded_world_def)

lemma resolve_sheet_empty:
  "resolve_sheet (Multiple []) None w = (Inl IndexError, w)"
  by (simp add: resolve_sheet_def run_simps)

lemma main_run:
  "main env a =
     (case load env a empty_world of
        (Inl e, w) \<Rightarrow> (Raised e, w)
      | (Inr None, w) \<Rightarrow> (Returned, w)
      | (Inr (Some df), w) \<Rightarrow> finish (process env a df w))"
  by (simp add: main_def finish_def next_do_run result_run split: prod.splits sum.splits option.splits)

text \<open>
  Claim C2, amended: when the loader returns a mapping of sheet name to table and the
  selector given by the user, as line 54 or 56 leaves it, is no key of the mapping, the
  run logs an error that reports the selector and the full list of the sheet names and
  returns from \<^verbatim>\<open>main\<close> at once (line 74). No exception is raised, the process ends
  with status 0, and nothing is written: the three output directories exist already,
  and no file of the report does.
\<close>

theorem sheet_not_found_returns:
  assumes "ensure_dir env ''reports'' = None" and "ensure_dir env ''reports/figures'' = None"
    and "ensure_dir env ''data/interim'' = None"
    and "parse_sheet (int_max_str_digits env) (arg_sheet a) = Some k"
    and "read_any env (arg_input a) (arg_sep a) (Some k) = Inr (Multiple d)"
    and "k \<notin> set (map fst d)"
  shows "main env a =
           (Returned,
            \<lparr>logs = [(INFO, MReading (arg_input a)), (ERROR, MSheetNotFound k (map fst d))],
             dirs = [''reports'', ''reports/figures'', ''data/interim''],
             writes = []\<rparr>)
         \<and> exit_status (fst (main env a)) = 0"
proof -
  have "load env a empty_world =
          (Inr None, loaded_world [(INFO, MReading (arg_input a)),
                                   (ERROR, MSheetNotFound k (map fst d))])"
    using assms by (simp add: load_run resolve_sheet_missing)
  then show ?thesis by (simp add: main_run loaded_world_def)
qed

theorem sheet_not_found_returns_witness:
  "parse_sheet 4300 (Some ''Sheet3'') = Some (KStr ''Sheet3'')
   \<and> KStr ''Sheet3'' \<notin> set [KStr ''Sheet1'', KStr ''Sheet2'']
   \<and> main (example_env two_sheets []) (example_args (Some ''Sheet3'')) =
       (Returned,
        \<lparr>logs = [(INFO, MReading ''data.xlsx''),
                 (ERROR, MSheetNotFound (KStr ''Sheet3'') [KStr ''Sheet1'', KStr ''Sheet2''])],
         dirs = [''reports'', ''reports/figures'', ''data/interim''],
         writes = []\<rparr>)"
proof -
  have p: "parse_sheet 4300 (Some ''Sheet3'') = Some (KStr ''Sheet3'')"
    by (simp add: parse_sheet_def py_int_def py_int_isspace_def is_digit_def)
  show ?thesis
    using p sheet_not_found_returns
      [of "example_env two_sheets []" "example_args (Some ''Sheet3'')" "KStr ''Sheet3''"
          "[(KStr ''Sheet1'', sheet1), (KStr ''Sheet2'', sheet2)]"]
    by (simp add: example_env_def example_args_def two_sheets_def)
qed

text \<open>
  Claim C2, as the specification words it: the run fails with \<^verbatim>\<open>SheetNotFoundError\<close>
  and is aborted with a non-zero termination signal. On the mapping of \<^verbatim>\<open>Sheet1\<close> and
  \<^verbatim>\<open>Sheet2\<close> with the selector \<^verbatim>\<open>Sheet3\<close>, the example of the specification, \<^verbatim>\<open>main\<close>
  returns and the status is 0.
\<close>

theorem sheet_not_found_exit_counterexample:
  "fst (main (example_env two_sheets []) (example_args (Some ''Sheet3''))) = Returned
   \<and> exit_status (fst (main (example_env two_sheets []) (example_args (Some ''Sheet3'')))) = 0"
  by (simp add: main_def load_def resolve_sheet_def run_simps finish_def Let_def
      example_env_def example_args_def two_sheets_def empty_world_def
      parse_sheet_def py_int_def py_int_isspace_def is_digit_def)

text \<open>
  Claim C5: when the loader returns a mapping and no sheet selector is given, the run
  takes the first entry of the mapping in insertion order, logs a warning that names
  its key, and goes on with its table. The mapping has a first entry \<open>(k, t)\<close> here;
  \<^verbatim>\<open>list(df.keys())[0]\<close> on an empty mapping raises (lemma \<open>resolve_sheet_empty\<close>).
\<close>

theorem first_sheet_by_default:
  assumes "ensure_dir env ''reports'' = None" and "ensure_dir env ''reports/figures'' = None"
    and "ensure_dir env ''data/interim'' = None"
    and "arg_sheet a = None"
    and "read_any env (arg_input a) (arg_sep a) None = Inr (Multiple ((k, t) # rest))"
  shows "main env a =
           finish (process env a t
             \<lparr>logs = [(INFO, MReading (arg_input a)), (WARNING, MFirstSheet k)],
              dirs = [''reports'', ''reports/figures'', ''data/interim''],
              writes = []\<rparr>)"
proof -
  have "load env a empty_world =
          (Inr (Some t), loaded_world [(INFO, MReading (arg_input a)), (WARNING, MFirstSheet k)])"
    using assms by (simp add: load_run parse_sheet_def resolve_sheet_first)
  then show ?thesis by (simp add: main_run loaded_world_def)
qed

theorem first_sheet_by_default_witness:
  "arg_sheet (example_args None) = None
   \<and> main (example_env two_sheets []) (example_args None) =
       finish (process (example_env two_sheets []) (example_args None) sheet1
         \<lparr>logs = [(INFO, MReading ''data.xlsx''), (WARNING, MFirstSheet (KStr ''Sheet1''))],
          dirs = [''reports'', ''reports/figures'', ''data/interim''],
          writes = []\<rparr>)"
  using first_sheet_by_default
    [of "example_env two_sheets []" "example_args None" "KStr ''Sheet1''" sheet1
        "[(KStr ''Sheet2'', sheet2)]"]
  by (simp add: example_env_def example_args_def two_sheets_def)


subsection \<open>The conversion of a digit string\<close>

lemma is_digit_plain:
  "is_digit c \<Longrightarrow> \<not> py_int_isspace c \<and> c \<noteq> CHR ''+'' \<and> c \<noteq> CHR ''-'' \<and> c \<noteq> CHR ''_''"
  by (auto simp: is_digit_def py_int_isspace_def)

lemma no_underscore_no_run: "CHR ''_'' \<notin> set s \<Longrightarrow> \<not> has_underscore_run s"
  by (induction s rule: has_underscore_run.induct) auto

lemma py_int_digits:
  assumes "s \<noteq> []" and "list_all is_digit s" and "lim = 0 \<or> length s \<le> lim"
  shows "py_int lim s = Some (decimal_value s)"
proof -
  from assms(1) obtain c r where s: "s = c # r" by (cases s) auto
  with assms(2) have c: "is_digit c" by simp
  have all: "\<forall>x\<in>set s. is_digit x" using assms(2) by (simp add: list_all_iff)
  have t: "dropWhile py_int_isspace s = s" using s c is_digit_plain by simp
  have body: "takeWhile (\<lambda>c. is_digit c \<or> c = CHR ''_'') s = s"
    using all by (simp add: takeWhile_eq_all_conv)
  have rest: "dropWhile (\<lambda>c. is_digit c \<or> c = CHR ''_'') s = []"
    using all by simp
  have ds: "filter is_digit s = s" using all by simp
  have last: "last s \<noteq> CHR ''_''" using all assms(1) is_digit_plain last_in_set by blast
  have run: "\<not> has_underscore_run s"
    using all is_digit_plain by (intro no_underscore_no_run) blast
  have sign: "(case s of [] \<Rightarrow> (False, []) | c # r \<Rightarrow>
                 if c = CHR ''+'' then (False, r) else if c = CHR ''-'' then (True, r)
                 else (False, s)) = (False, s)"
    using s c is_digit_plain by simp
  have hd: "hd s \<noteq> CHR ''_''" using s c is_digit_plain by simp
  have lim: "\<not> (640 < length s \<and> 0 < lim \<and> lim < length s)" using assms(3) by auto
  show ?thesis
    by (simp only: py_int_def Let_def t sign prod.case body rest ds)
       (simp add: assms(1) last run hd lim)
qed

lemma py_int_beyond_limit:
  assumes "list_all is_digit s" and "640 < length s" and "0 < lim" and "lim < length s"
  shows "py_int lim s = None"
proof -
  from assms(2) obtain c r where s: "s = c # r" by (cases s) auto
  with assms(1) have c: "is_digit c" by simp
  have all: "\<forall>x\<in>set s. is_digit x" using assms(1) by (simp add: list_all_iff)
  have t: "dropWhile py_int_isspace s = s" using s c is_digit_plain by simp
  have body: "takeWhile (\<lambda>c. is_digit c \<or> c = CHR ''_'') s = s"
    using all by (simp add: takeWhile_eq_all_conv)
  have ds: "filter is_digit s = s" using all by simp
  have sign: "(case s of [] \<Rightarrow> (False, []) | c # r \<Rightarrow>
                 if c = CHR ''+'' then (False, r) else if c = CHR ''-'' then (True, r)
                 else (False, s)) = (False, s)"
    using s c is_digit_plain by simp
  show ?thesis
    by (simp only: py_int_def Let_def t sign prod.case body ds) (simp add: assms(2-4))
qed

lemma parse_sheet_separator:
  "parse_sheet 4300 (Some [CHR 0x1C, CHR ''2'']) = Some (KStr [CHR 0x1C, CHR ''2''])"
  by (simp add: parse_sheet_def py_int_def py_int_isspace_def is_digit_def)

text \<open>
  Claim C10, as it is worded: a \<^verbatim>\<open>--sheet\<close> argument that is a string of decimal digits
  is always turned into an integer, so a sheet named by that string can never be
  selected by name. With the default limit of 4300 digits, \<^verbatim>\<open>int\<close> raises
  \<^verbatim>\<open>ValueError\<close> on a string of 4301 digits, line 56 keeps the string, and the lookup
  selects the sheet of that name.
\<close>

theorem digit_selector_beyond_limit_counterexample:
  "parse_sheet 4300 (Some long_digits) = Some (KStr long_digits)
   \<and> load (example_env long_named_sheets []) (example_args (Some long_digits)) empty_world
       = (Inr (Some sheet1), loaded_world [(INFO, MReading ''data.xlsx'')])"
proof -
  have "py_int 4300 long_digits = None"
    by (rule py_int_beyond_limit) (simp_all add: long_digits_def list_all_iff is_digit_def)
  then have p: "parse_sheet 4300 (Some long_digits) = Some (KStr long_digits)"
    by (simp add: parse_sheet_def)
  have "load (example_env long_named_sheets []) (example_args (Some long_digits)) empty_world
        = resolve_sheet long_named_sheets (Some (KStr long_digits))
            (loaded_world [(INFO, MReading ''data.xlsx'')])"
    using p by (simp add: load_run example_env_def example_args_def)
  also have "\<dots> = (Inr (Some sheet1), loaded_world [(INFO, MReading ''data.xlsx'')])"
    unfolding long_named_sheets_def by (rule resolve_sheet_present) simp
  finally show ?thesis using p by simp
qed

text \<open>
  Claim C10, amended: a \<^verbatim>\<open>--sheet\<close> argument that is a string of one or more decimal
  digits, and of no more digits than the interpreter's limit for \<^verbatim>\<open>int\<close> when there is
  one, is turned into an integer before the lookup. So whatever mapping the loader
  returns, also one with a sheet named by that very string, the lookup is made with the
  integer key: it fails with the error of line 73 when no entry has that integer key,
  and it selects the integer-keyed entry otherwise.
\<close>

theorem digit_selector_is_integer:
  assumes "ensure_dir env ''reports'' = None" and "ensure_dir env ''reports/figures'' = None"
    and "ensure_dir env ''data/interim'' = None"
    and "arg_sheet a = Some s" and "s \<noteq> []" and "list_all is_digit s"
    and "int_max_str_digits env = 0 \<or> length s \<le> int_max_str_digits env"
    and "read_any env (arg_input a) (arg_sep a) (Some (KInt (decimal_value s))) = Inr (Multiple d)"
  shows "parse_sheet (int_max_str_digits env) (arg_sheet a) = Some (KInt (decimal_value s))
         \<and> main env a =
             (case map_of d (KInt (decimal_value s)) of
                None \<Rightarrow>
                  (Returned,
                   \<lparr>logs = [(INFO, MReading (arg_input a)),
                            (ERROR, MSheetNotFound (KInt (decimal_value s)) (map fst d))],
                    dirs = [''reports'', ''reports/figures'', ''data/interim''],
                    writes = []\<rparr>)
              | Some t \<Rightarrow>
                  finish (process env a t
                    \<lparr>logs = [(INFO, MReading (arg_input a))],
                     dirs = [''reports'', ''reports/figures'', ''data/interim''],
                     writes = []\<rparr>))"
proof -
  let ?k = "KInt (decimal_value s)"
  have p: "parse_sheet (int_max_str_digits env) (arg_sheet a) = Some ?k"
    using assms(4-7) by (simp add: parse_sheet_def py_int_digits)
  have l: "load env a empty_world =
             resolve_sheet (Multiple d) (Some ?k) (loaded_world [(INFO, MReading (arg_input a))])"
    using assms(1-3,8) p by (simp add: load_run)
  show ?thesis
  proof (cases "map_of d ?k")
    case None
    then have "?k \<notin> set (map fst d)" by (simp add: map_of_eq_None_iff)
    with l have "load env a empty_world =
        (Inr None, loaded_world [(INFO, MReading (arg_input a)),
                                 (ERROR, MSheetNotFound ?k (map fst d))])"
      by (simp add: resolve_sheet_missing)
    with None p show ?thesis by (simp add: main_run loaded_world_def)
  next
    case (Some t)
    with l have "load env a empty_world =
        (Inr (Some t), loaded_world [(INFO, MReading (arg_input a))])"
      by (simp add: resolve_sheet_present)
    with Some p show ?thesis by (simp add: main_run loaded_world_def)
  qed
qed

theorem digit_selector_is_integer_witness:
  "list_all is_digit ''2'' \<and> decimal_value ''2'' = 2
   \<and> parse_sheet 4300 (Some ''2'') = Some (KInt 2)
   \<and> main (example_env digit_sheets []) (example_args (Some ''2'')) =
       (Returned,
        \<lparr>logs = [(INFO, MReading ''data.xlsx''),
                 (ERROR, MSheetNotFound (KInt 2) [KStr ''1'', KStr ''2''])],
         dirs = [''reports'', ''reports/figures'', ''data/interim''],
         writes = []\<rparr>)"
proof -
  have d: "decimal_value ''2'' = 2" by (simp add: decimal_value_def digit_value_def)
  show ?thesis
    using d digit_selector_is_integer
      [of "example_env digit_sheets []" "example_args (Some ''2'')" "''2''"
          "[(KStr ''1'', sheet1), (KStr ''2'', sheet2)]"]
    by (simp add: example_env_def example_args_def digit_sheets_def is_digit_def)
qed

section \<open>The export of the tables\<close>

subsection \<open>The loop over the text columns\<close>

lemma value_counts_run:
  "value_counts cat c w =
     (if one_column cat c then (Inr (), w)
      else (Inl (if filter (\<lambda>col. col_name col = c) cat = [] then KeyError else ValueError), w))"
  by (simp add: value_counts_def one_column_def result_run raise_run split: list.splits)

lemma export_value_counts_world:
  "snd (export_value_counts env cat cs freq_out w) =
     w\<lparr>logs := logs w @ value_counts_warnings env (takeWhile (one_column cat) cs),
       writes := writes w @ value_counts_writes env (takeWhile (one_column cat) cs)\<rparr>"
proof (induction cs arbitrary: freq_out w)
  case Nil
  show ?case
    by (simp add: result_run saved_def value_counts_warnings_def value_counts_writes_def)
next
  case (Cons c cs)
  show ?case
  proof (cases "one_column cat c")
    case False
    then show ?thesis
      by (simp add: next_do_run value_counts_run saved_def value_counts_warnings_def
          value_counts_writes_def)
  next
    case True
    show ?thesis
    proof (cases "write_file env (value_counts_path c)")
      case None
      with True show ?thesis
        by (simp add: Cons run_simps value_counts_run try_except_def saved_def
            value_counts_warnings_def value_counts_writes_def)
    next
      case (Some e)
      with True show ?thesis
        by (simp add: Cons run_simps value_counts_run try_except_def saved_def
            value_counts_warnings_def value_counts_writes_def)
    qed
  qed
qed

lemma export_value_counts_run:
  assumes "\<forall>c \<in> set cs. one_column cat c"
  shows "export_value_counts env cat cs freq_out w =
           (Inr (freq_out @ saved env cs),
            w\<lparr>logs := logs w @ value_counts_warnings env cs,
              writes := writes w @ value_counts_writes env cs\<rparr>)"
  using assms
proof (induction cs arbitrary: freq_out w)
  case Nil
  show ?case
    by (simp add: result_run saved_def value_counts_warnings_def value_counts_writes_def)
next
  case (Cons c cs)
  then have c: "one_column cat c" and cs: "\<forall>c \<in> set cs. one_column cat c" by simp_all
  show ?case
  proof (cases "write_file env (value_counts_path c)")
    case None
    with c show ?thesis
      by (simp add: Cons.IH [OF cs] run_simps value_counts_run try_except_def saved_def
          value_counts_warnings_def value_counts_writes_def)
  next
    case (Some e)
    with c show ?thesis
      by (simp add: Cons.IH [OF cs] run_simps value_counts_run try_except_def saved_def
          value_counts_warnings_def value_counts_writes_def)
  qed
qed

lemma distinct_one_column:
  assumes "distinct (map col_name cat)" and "c \<in> set (map col_name cat)"
  shows "one_column cat c"
  using assms
proof (induction cat)
  case Nil
  then show ?case by simp
next
  case (Cons x xs)
  show ?case
  proof (cases "col_name x = c")
    case True
    with Cons.prems have "c \<notin> col_name ` set xs" by auto
    then have "filter (\<lambda>col. col_name col = c) xs = []" by (auto simp: filter_empty_conv)
    with True show ?thesis by (simp add: one_column_def)
  next
    case False
    with Cons show ?thesis by (auto simp: one_column_def)
  qed
qed

lemma counted_distinct:
  assumes "distinct (map col_name cat)"
  shows "counted cat = map col_name cat"
  unfolding counted_def using distinct_one_column [OF assms]
  by (simp add: takeWhile_eq_all_conv)

lemma snd_finish: "snd (finish r) = snd r"
  by (simp add: finish_def split: prod.splits sum.splits)

lemma export_tables_writes:
  assumes "select_dtypes True t = [] \<or> write_file env numeric_summary_path = None"
  shows "writes (snd (export_tables env t w)) =
           writes w @ numeric_writes t
           @ value_counts_writes env (counted (select_dtypes False t))"
proof -
  let ?cat = "select_dtypes False t"
  let ?w = "w\<lparr>writes := writes w @ numeric_writes t\<rparr>"
  obtain r w' where e: "export_value_counts env ?cat (map col_name ?cat) [] ?w = (r, w')"
    by (cases "export_value_counts env ?cat (map col_name ?cat) [] ?w") auto
  have w': "writes w' = writes w @ numeric_writes t @ value_counts_writes env (counted ?cat)"
    using export_value_counts_world [of env ?cat "map col_name ?cat" "[]" ?w] e
    by (simp add: counted_def)
  have "writes (snd (export_tables env t w)) = writes w'"
    using assms e
    by (auto simp: export_tables_def Let_def run_simps numeric_writes_def split: sum.splits)
  with w' show ?thesis by simp
qed

lemma export_tables_run:
  assumes "select_dtypes True t = [] \<or> write_file env numeric_summary_path = None"
    and "distinct (map col_name (select_dtypes False t))"
  shows "export_tables env t w =
           (Inr (),
            w\<lparr>logs := logs w @ value_counts_warnings env (map col_name (select_dtypes False t))
                      @ [(INFO, MDone)],
              writes := writes w @ numeric_writes t
                        @ value_counts_writes env (map col_name (select_dtypes False t))\<rparr>)"
proof -
  let ?cat = "select_dtypes False t"
  have all: "\<forall>c \<in> set (map col_name ?cat). one_column ?cat c"
    using distinct_one_column [OF assms(2)] by blast
  show ?thesis
    using assms(1)
    by (auto simp: export_tables_def Let_def run_simps export_value_counts_run [OF all]
        numeric_writes_def)
qed

lemma export_tables_abort:
  assumes "select_dtypes True t \<noteq> []" and "write_file env numeric_summary_path = Some e"
  shows "export_tables env t w = (Inl e, w)"
  using assms by (simp add: export_tables_def Let_def run_simps)

subsection \<open>The stages before the export\<close>

lemma not_saved_append: "not_saved (l @ l') = not_saved l @ not_saved l'"
  by (induction l rule: not_saved.induct) simp_all

lemma profile_end:
  assumes "profile env a t w = (Inr (), w')"
  shows "writes w' = writes w @ profile_writes t \<and> dirs w' = dirs w
         \<and> not_saved (logs w') = not_saved (logs w)"
  using assms
  by (auto simp: profile_def run_simps profile_writes_def not_saved_append
      split: option.splits sum.splits)

lemma resolve_sheet_end:
  assumes "resolve_sheet df sheet w = (r, w')"
  shows "writes w' = writes w \<and> dirs w' = dirs w \<and> not_saved (logs w') = not_saved (logs w)"
  using assms
  by (auto simp: resolve_sheet_def run_simps dict_get_def not_saved_append
      split: loaded.splits option.splits list.splits sum.splits if_splits)

lemma load_end:
  assumes "load env a empty_world = (r, w')"
  shows "writes w' = [] \<and> not_saved (logs w') = []"
  using assms
  by (auto simp: load_def run_simps Let_def empty_world_def not_saved_append
      split: option.splits sum.splits dest!: resolve_sheet_end)

lemma main_export:
  assumes "load env a empty_world = (Inr (Some df), w0)"
    and "profile env a (normalize_columns (str_other env) df) w0 = (Inr (), w1)"
  shows "main env a = finish (export_tables env (normalize_columns (str_other env) df) w1)"
  using assms by (simp add: main_def process_def Let_def next_do_run)

subsection \<open>Paths and files\<close>

lemma value_counts_path_tail: "take 5 (rev (value_counts_path c)) = ''vsc.s''"
  by (simp add: value_counts_path_def)

lemma value_counts_path_eq:
  "value_counts_path c = value_counts_path c' \<longleftrightarrow> clean_filename c = clean_filename c'"
  by (simp add: value_counts_path_def)

lemma value_counts_path_not_numeric: "value_counts_path c \<noteq> numeric_summary_path"
proof
  assume "value_counts_path c = numeric_summary_path"
  then have "take 5 (rev (value_counts_path c)) = take 5 (rev numeric_summary_path)" by simp
  then show False by (simp add: value_counts_path_tail) (simp add: numeric_summary_path_def)
qed



lemma file_content_append:
  "file_content (ws @ ws') p =
     (case file_content ws' p of None \<Rightarrow> file_content ws p | Some c \<Rightarrow> Some c)"
  by (simp add: file_content_def map_add_def split: option.splits)

lemma file_content_None: "file_content ws p = None \<longleftrightarrow> p \<notin> fst ` set ws"
  by (simp add: file_content_def map_of_eq_None_iff)

lemma file_content_last:
  assumes "p \<notin> fst ` set ws'"
  shows "file_content (ws @ (p, c) # ws') p = Some c"
proof -
  have "file_content ((p, c) # ws') p = Some c"
    using assms file_content_append [of "[(p, c)]" ws' p]
    by (simp add: file_content_None [symmetric]) (simp add: file_content_def)
  then show ?thesis by (simp add: file_content_append)
qed

lemma paths_value_counts_writes:
  "fst ` set (value_counts_writes env cs) = value_counts_path ` set (saved env cs)"
  by (force simp: value_counts_writes_def)

lemma not_saved_warnings:
  "not_saved (value_counts_warnings env cs :: (level \<times> 'f msg) list)
   = filter (\<lambda>c. write_file env (value_counts_path c) \<noteq> None) cs"
  by (induction cs) (auto simp: value_counts_warnings_def not_saved_append split: option.splits)


subsection \<open>A run that reaches the export\<close>

lemma main_writes:
  assumes "load env a empty_world = (Inr (Some df), w0)"
    and "profile env a (normalize_columns (str_other env) df) w0 = (Inr (), w1)"
    and "select_dtypes True (normalize_columns (str_other env) df) = []
         \<or> write_file env numeric_summary_path = None"
  shows "writes (snd (main env a)) =
           profile_writes (normalize_columns (str_other env) df)
           @ numeric_writes (normalize_columns (str_other env) df)
           @ value_counts_writes env
               (counted (select_dtypes False (normalize_columns (str_other env) df)))"
proof -
  let ?t = "normalize_columns (str_other env) df"
  have "writes w0 = [] \<and> not_saved (logs w0) = []" using assms(1) by (rule load_end)
  then have w1: "writes w1 = profile_writes ?t" using profile_end [OF assms(2)] by simp
  have "main env a = finish (export_tables env ?t w1)" using assms(1,2) by (rule main_export)
  then show ?thesis by (simp add: snd_finish export_tables_writes [OF assms(3)] w1)
qed

lemma main_end:
  assumes "load env a empty_world = (Inr (Some df), w0)"
    and "profile env a (normalize_columns (str_other env) df) w0 = (Inr (), w1)"
    and "select_dtypes True (normalize_columns (str_other env) df) = []
         \<or> write_file env numeric_summary_path = None"
    and "distinct (map col_name (select_dtypes False (normalize_columns (str_other env) df)))"
  shows "fst (main env a) = Returned"
    and "writes (snd (main env a)) =
           profile_writes (normalize_columns (str_other env) df)
           @ numeric_writes (normalize_columns (str_other env) df)
           @ value_counts_writes env
               (map col_name (select_dtypes False (normalize_columns (str_other env) df)))"
    and "logs (snd (main env a)) =
           logs w1
           @ value_counts_warnings env
               (map col_name (select_dtypes False (normalize_columns (str_other env) df)))
           @ [(INFO, MDone)]"
    and "not_saved (logs (snd (main env a))) =
           filter (\<lambda>c. write_file env (value_counts_path c) \<noteq> None)
             (map col_name (select_dtypes False (normalize_columns (str_other env) df)))"
proof -
  let ?t = "normalize_columns (str_other env) df"
  have w0: "writes w0 = [] \<and> not_saved (logs w0) = []" using assms(1) by (rule load_end)
  have w1: "writes w1 = profile_writes ?t \<and> not_saved (logs w1) = []"
    using profile_end [OF assms(2)] w0 by simp
  have m: "main env a = finish (export_tables env ?t w1)"
    using assms(1,2) by (rule main_export)
  show "fst (main env a) = Returned"
    by (simp add: m export_tables_run [OF assms(3,4)] finish_def)
  show "writes (snd (main env a)) = profile_writes ?t @ numeric_writes ?t
          @ value_counts_writes env (map col_name (select_dtypes False ?t))"
    by (simp add: m export_tables_run [OF assms(3,4)] finish_def w1)
  show l: "logs (snd (main env a)) = logs w1
          @ value_counts_warnings env (map col_name (select_dtypes False ?t)) @ [(INFO, MDone)]"
    by (simp add: m export_tables_run [OF assms(3,4)] finish_def)
  show "not_saved (logs (snd (main env a))) =
          filter (\<lambda>c. write_file env (value_counts_path c) \<noteq> None)
            (map col_name (select_dtypes False ?t))"
    by (simp add: l not_saved_append w1 not_saved_warnings)
qed





text \<open>
  Claim C7: in a run that reaches the export, with a file system that accepts the
  write, \<^verbatim>\<open>numeric_summary.csv\<close> is written exactly when the normalized table has a
  numeric column; it then holds the summary of the numeric columns, and it does not
  exist otherwise.
\<close>

theorem numeric_summary_iff_numeric_column:
  assumes "load env a empty_world = (Inr (Some df), w0)"
    and "profile env a (normalize_columns (str_other env) df) w0 = (Inr (), w1)"
    and "write_file env numeric_summary_path = None"
  shows "(numeric_summary_path \<in> fst ` set (writes (snd (main env a)))
          \<longleftrightarrow> (\<exists>col \<in> set (normalize_columns (str_other env) df). is_numeric col))
         \<and> file_content (writes (snd (main env a))) numeric_summary_path
             = (if \<exists>col \<in> set (normalize_columns (str_other env) df). is_numeric col
                then Some (CNumericSummary
                       (map col_name (select_dtypes True (normalize_columns (str_other env) df))))
                else None)"
proof -
  let ?t = "normalize_columns (str_other env) df"
  let ?cat = "counted (select_dtypes False ?t)"
  have ok: "select_dtypes True ?t = [] \<or> write_file env numeric_summary_path = None"
    using assms(3) by simp
  note fin = main_writes [OF assms(1,2) ok]
  have num: "select_dtypes True ?t \<noteq> [] \<longleftrightarrow> (\<exists>col \<in> set ?t. is_numeric col)"
    by (auto simp: select_dtypes_def filter_empty_conv)
  have p: "file_content (profile_writes ?t) numeric_summary_path = None"
    by (simp add: file_content_def profile_writes_def numeric_summary_path_def)
  have v: "file_content (value_counts_writes env ?cat) numeric_summary_path = None"
    unfolding file_content_None paths_value_counts_writes
    using value_counts_path_not_numeric by (metis imageE)
  have n: "file_content (numeric_writes ?t) numeric_summary_path
             = (if select_dtypes True ?t = [] then None
                else Some (CNumericSummary (map col_name (select_dtypes True ?t))))"
    by (simp add: numeric_writes_def file_content_def)
  have content: "file_content (writes (snd (main env a))) numeric_summary_path
             = (if select_dtypes True ?t = [] then None
                else Some (CNumericSummary (map col_name (select_dtypes True ?t))))"
    by (simp add: fin file_content_append p v n)
  have "numeric_summary_path \<in> fst ` set (writes (snd (main env a)))
          \<longleftrightarrow> select_dtypes True ?t \<noteq> []"
    using content file_content_None [of "writes (snd (main env a))" numeric_summary_path]
    by (auto split: if_splits)
  with content num show ?thesis by auto
qed

lemma clean_filename_collision: "clean_filename ''a/b'' = ''a_b'' \<and> clean_filename ''a_b'' = ''a_b''"
  by (simp add: clean_filename_def re_sub_class_def forbidden_chars_def py_strip_chars_def)

lemma clean_filename_not_inj: "\<not> inj clean_filename"
proof
  assume "inj clean_filename"
  moreover have "clean_filename ''a/b'' = clean_filename ''a_b''"
    using clean_filename_collision by simp
  ultimately have "''a/b'' = ''a_b''" by (rule injD)
  then show False by simp
qed

text \<open>
  Claim C9: \<^verbatim>\<open>clean_filename\<close> is not injective, and in a run whose text columns have
  distinct labels, two of them \<open>c1\<close> and, later, \<open>c2\<close> with the same sanitized name,
  \<open>c2\<close> being the last column of that sanitized name, both write to the same path:
  the value counts of \<open>c1\<close> are written and then replaced by those of \<open>c2\<close>, and no
  warning is logged for either.
\<close>

theorem colliding_names_overwrite:
  assumes "load env a empty_world = (Inr (Some df), w0)"
    and "profile env a (normalize_columns (str_other env) df) w0 = (Inr (), w1)"
    and "select_dtypes True (normalize_columns (str_other env) df) = []
         \<or> write_file env numeric_summary_path = None"
    and "map col_name (select_dtypes False (normalize_columns (str_other env) df))
         = pre @ [c1] @ mid @ [c2] @ post"
    and "distinct (map col_name (select_dtypes False (normalize_columns (str_other env) df)))"
    and "clean_filename c1 = clean_filename c2"
    and "\<forall>c \<in> set post. clean_filename c \<noteq> clean_filename c2"
    and "write_file env (value_counts_path c2) = None"
  shows "\<not> inj clean_filename
         \<and> fst (main env a) = Returned
         \<and> value_counts_path c1 = value_counts_path c2
         \<and> (value_counts_path c1, CValueCounts c1) \<in> set (writes (snd (main env a)))
         \<and> file_content (writes (snd (main env a))) (value_counts_path c1)
             = Some (CValueCounts c2)
         \<and> CValueCounts c2 \<noteq> CValueCounts c1
         \<and> c1 \<notin> set (not_saved (logs (snd (main env a))))
         \<and> c2 \<notin> set (not_saved (logs (snd (main env a))))"
proof -
  let ?t = "normalize_columns (str_other env) df"
  note fin = main_end [OF assms(1-3,5)]
  have diff: "c1 \<noteq> c2" using assms(5) unfolding assms(4) by auto
  have same: "value_counts_path c1 = value_counts_path c2"
    using assms(6) by (simp add: value_counts_path_eq)
  have ok1: "write_file env (value_counts_path c1) = None" using same assms(8) by simp
  have vw: "value_counts_writes env (pre @ [c1] @ mid @ [c2] @ post)
              = (value_counts_writes env (pre @ [c1] @ mid))
                @ (value_counts_path c2, CValueCounts c2) # value_counts_writes env post"
    using assms(8) by (simp add: value_counts_writes_def saved_def)
  have "value_counts_path c2 \<notin> value_counts_path ` set (saved env post)"
    using assms(7) by (auto simp: value_counts_path_eq saved_def)
  then have post: "value_counts_path c2 \<notin> fst ` set (value_counts_writes env post)"
    by (simp add: paths_value_counts_writes)
  have ws: "writes (snd (main env a)) =
              (profile_writes ?t @ numeric_writes ?t @ value_counts_writes env (pre @ [c1] @ mid))
              @ (value_counts_path c2, CValueCounts c2) # value_counts_writes env post"
    unfolding fin(2) assms(4) vw by simp
  have content: "file_content (writes (snd (main env a))) (value_counts_path c1)
                   = Some (CValueCounts c2)"
    unfolding ws same using post by (rule file_content_last)
  have written: "(value_counts_path c1, CValueCounts c1) \<in> set (writes (snd (main env a)))"
    using ok1 by (simp add: fin(2) assms(4) value_counts_writes_def saved_def)
  have quiet: "c1 \<notin> set (not_saved (logs (snd (main env a))))
               \<and> c2 \<notin> set (not_saved (logs (snd (main env a))))"
    using ok1 assms(8) by (simp add: fin(4))
  from clean_filename_not_inj fin(1) same written content diff quiet show ?thesis by simp
qed

subsection \<open>The example runs\<close>

lemma example_load:
  "load (example_env (Single t) failing) (example_args None) empty_world
   = (Inr (Some t), loaded_world [(INFO, MReading ''data.xlsx'')])"
  by (simp add: load_run example_env_def example_args_def parse_sheet_def resolve_sheet_def
      result_run)

lemma example_profile:
  assumes "''data/interim/sample_head.csv'' \<notin> set failing"
    and "''data/interim/_data_dictionary_debug.csv'' \<notin> set failing"
    and "''reports/quality_flags.json'' \<notin> set failing"
  shows "profile (example_env df failing) a t w
         = (Inr (),
            w\<lparr>logs := logs w @ [(INFO, MDimensions (ov_rows (example_overview t)) (length t)),
                                (INFO, MFirstColumns (take 5 (map col_name t))),
                                (INFO, MFlags ()), (INFO, MPlotting)],
              writes := writes w @ profile_writes t\<rparr>)"
  using assms
  by (simp add: profile_def run_simps example_env_def example_overview_def profile_writes_def)

lemma normalize_text_table:
  "normalize_columns (\<lambda>_. ''None'') text_table =
     [\<lparr>col_name = ''bad/name'', is_numeric = False, cells = [1]\<rparr>,
      \<lparr>col_name = ''city'', is_numeric = False, cells = [2]\<rparr>]"
  by (simp add: normalize_columns_def text_table_def normalize_name_def py_strip_def
      py_replace_char_def py_isspace_def)

lemma normalize_colliding_table:
  "normalize_columns (\<lambda>_. ''None'') colliding_table =
     [\<lparr>col_name = ''a/b'', is_numeric = False, cells = [1]\<rparr>,
      \<lparr>col_name = ''a_b'', is_numeric = False, cells = [2]\<rparr>,
      \<lparr>col_name = ''n'', is_numeric = True, cells = [3]\<rparr>]"
  by (simp add: normalize_columns_def colliding_table_def normalize_name_def py_strip_def
      py_replace_char_def py_isspace_def)




theorem numeric_summary_iff_numeric_column_witness:
  "write_file (example_env (Single colliding_table) []) numeric_summary_path = None
   \<and> file_content
        (writes (snd (main (example_env (Single colliding_table) []) (example_args None))))
        numeric_summary_path = Some (CNumericSummary [''n''])
   \<and> numeric_summary_path
       \<notin> fst ` set (writes (snd (main (example_env (Single text_table) [])
                                      (example_args None))))"
proof -
  let ?env = "example_env (Single colliding_table) []"
  let ?env' = "example_env (Single text_table) []"
  obtain w1 where p:
    "profile ?env (example_args None) (normalize_columns (str_other ?env) colliding_table)
       (loaded_world [(INFO, MReading ''data.xlsx'')]) = (Inr (), w1)"
    by (simp add: example_profile)
  obtain w1' where p':
    "profile ?env' (example_args None) (normalize_columns (str_other ?env') text_table)
       (loaded_world [(INFO, MReading ''data.xlsx'')]) = (Inr (), w1')"
    by (simp add: example_profile)
  have s: "str_other ?env = (\<lambda>_. ''None'')" "str_other ?env' = (\<lambda>_. ''None'')"
    by (simp_all add: example_env_def)
  have ok: "write_file ?env numeric_summary_path = None"
    "write_file ?env' numeric_summary_path = None"
    by (simp_all add: example_env_def)
  show ?thesis
    using numeric_summary_iff_numeric_column [OF example_load p ok(1)]
      numeric_summary_iff_numeric_column [OF example_load p' ok(2)] ok(1)
    by (simp add: s normalize_text_table normalize_colliding_table select_dtypes_def)
qed

theorem colliding_names_overwrite_witness:
  "clean_filename ''a/b'' = clean_filename ''a_b''
   \<and> fst (main (example_env (Single colliding_table) []) (example_args None)) = Returned
   \<and> (''reports/a_b_top20_value_counts.csv'', CValueCounts ''a/b'')
       \<in> set (writes (snd (main (example_env (Single colliding_table) []) (example_args None))))
   \<and> file_content
        (writes (snd (main (example_env (Single colliding_table) []) (example_args None))))
        ''reports/a_b_top20_value_counts.csv'' = Some (CValueCounts ''a_b'')
   \<and> ''a/b'' \<notin> set (not_saved (logs (snd (main (example_env (Single colliding_table) [])
                                                (example_args None)))))"
proof -
  let ?env = "example_env (Single colliding_table) []"
  obtain w1 where p:
    "profile ?env (example_args None) (normalize_columns (str_other ?env) colliding_table)
       (loaded_world [(INFO, MReading ''data.xlsx'')]) = (Inr (), w1)"
    by (simp add: example_profile)
  have s: "str_other ?env = (\<lambda>_. ''None'')" by (simp add: example_env_def)
  have ok: "write_file ?env p = None" for p by (simp add: example_env_def)
  have path: "value_counts_path ''a/b'' = ''reports/a_b_top20_value_counts.csv''"
    "value_counts_path ''a_b'' = ''reports/a_b_top20_value_counts.csv''"
    by (simp_all add: value_counts_path_def clean_filename_collision)
  show ?thesis
    using colliding_names_overwrite
      [OF example_load p, of "[]" "''a/b''" "[]" "''a_b''" "[]"]
    by (simp add: s ok normalize_colliding_table select_dtypes_def clean_filename_collision path)
qed

lemma normalize_repeating_table:
  "normalize_columns (\<lambda>_. ''None'') repeating_table =
     [\<lparr>col_name = ''x'', is_numeric = False, cells = [1]\<rparr>,
      \<lparr>col_name = ''a_b'', is_numeric = False, cells = [2]\<rparr>,
      \<lparr>col_name = ''a_b'', is_numeric = False, cells = [3]\<rparr>]"
  by (simp add: normalize_columns_def repeating_table_def normalize_name_def py_strip_def
      py_replace_char_def py_isspace_def)

lemma x_path: "value_counts_path ''x'' = ''reports/x_top20_value_counts.csv''"
  by (simp add: value_counts_path_def clean_filename_def re_sub_class_def forbidden_chars_def
      py_strip_chars_def)

lemma repeated_label_aborts:
  "fst (main (example_env (Single repeating_table) [''reports/x_top20_value_counts.csv''])
          (example_args None)) = Raised ValueError
   \<and> not_saved (logs (snd (main (example_env (Single repeating_table)
                                   [''reports/x_top20_value_counts.csv''])
                                 (example_args None)))) = [''x'']
   \<and> ''reports/a_b_top20_value_counts.csv''
       \<notin> fst ` set (writes (snd (main (example_env (Single repeating_table)
                                         [''reports/x_top20_value_counts.csv''])
                                       (example_args None))))"
proof -
  let ?env = "example_env (Single repeating_table) [''reports/x_top20_value_counts.csv'']"
  have s: "str_other ?env = (\<lambda>_. ''None'')" by (simp add: example_env_def)
  have w: "write_file ?env ''reports/x_top20_value_counts.csv'' = Some (Failure ''disk full'')"
    by (simp add: example_env_def)
  obtain w1 where p:
    "profile ?env (example_args None) (normalize_columns (str_other ?env) repeating_table)
       (loaded_world [(INFO, MReading ''data.xlsx'')]) = (Inr (), w1)"
    by (simp add: example_profile)
  have w1: "writes w1 = profile_writes (normalize_columns (str_other ?env) repeating_table)"
    "not_saved (logs w1) = []"
    using profile_end [OF p] by (simp_all add: loaded_world_def)
  show ?thesis
    unfolding main_export [OF example_load p]
    by (simp add: s w w1 normalize_repeating_table export_tables_def select_dtypes_def Let_def
        run_simps value_counts_run one_column_def try_except_def x_path finish_def
        not_saved_append profile_writes_def)
qed

end
